theory Spec2Isabelle
  imports Complex_Main "HOL-Library.Multiset"
begin

section \<open>Paths: the functions of os.path that the scripts call (POSIX flavour)\<close>

text \<open>
  A path is a \<open>string\<close>. The separator \<open>/\<close> and the extension dot are ASCII, so the
  functions below cut a UTF-8 byte string where Python cuts the string of code points.
  \<open>rfind\<close> is \<open>str.rfind\<close> for a one-character needle: the index of its last
  occurrence, or -1.
\<close>

definition rfind :: "char \<Rightarrow> string \<Rightarrow> int" where
  "rfind c p =
     (if c \<in> set p
      then int (length p) - 1 - int (length (takeWhile (\<lambda>x. x \<noteq> c) (rev p)))
      else - 1)"

text \<open>posixpath.basename: \<open>i = p.rfind('/') + 1; return p[i:]\<close>.\<close>

definition basename :: "string \<Rightarrow> string" where
  "basename p = drop (nat (rfind (CHR ''/'') p + 1)) p"

text \<open>
  genericpath._splitext with \<open>sep = '/'\<close>, \<open>extsep = '.'\<close>: the extension starts at the
  last dot of the last component, unless only dots stand before it in that component.
\<close>

definition splitext :: "string \<Rightarrow> string \<times> string" where
  "splitext p =
     (let sepIndex = rfind (CHR ''/'') p;
          dotIndex = rfind (CHR ''.'') p
      in if dotIndex > sepIndex \<and>
            list_ex (\<lambda>c. c \<noteq> CHR ''.'') (drop (nat (sepIndex + 1)) (take (nat dotIndex) p))
         then (take (nat dotIndex) p, drop (nat dotIndex) p)
         else (p, []))"

text \<open>
  posixpath.join of two components: an absolute second component replaces the first;
  otherwise the two are joined with one separator, which is not added after an empty
  first component or one that already ends in a separator.
\<close>

definition join :: "string \<Rightarrow> string \<Rightarrow> string" where
  "join a b =
     (if b \<noteq> [] \<and> hd b = CHR ''/'' then b
      else if a = [] \<or> last a = CHR ''/'' then a @ b
      else a @ ''/'' @ b)"

section \<open>thumbnail\_adder.py: find\_matching\_thumbnail\<close>

text \<open>
  The file system is read through \<open>os.path.exists\<close> only, which the model takes as a
  predicate on paths. \<open>patterns\<close> is the list of candidate file names the function
  builds from the video's name (lines 177-182).
\<close>

definition patterns :: "string \<Rightarrow> string list" where
  "patterns video_name =
     [video_name @ ''_thumb.png'',
      video_name @ ''_thumbnail.png'',
      video_name @ ''.png'',
      ''thumb_'' @ video_name @ ''.png'']"

text \<open>The inner loop (lines 185-188): one file name probed in every directory in turn.\<close>

fun probe_dirs :: "(string \<Rightarrow> bool) \<Rightarrow> string \<Rightarrow> string list \<Rightarrow> string option" where
  "probe_dirs path_exists pattern [] = None"
| "probe_dirs path_exists pattern (thumb_dir # dirs) =
     (let thumb_path = join thumb_dir pattern
      in if path_exists thumb_path then Some thumb_path
         else probe_dirs path_exists pattern dirs)"

text \<open>The outer loop (line 184): the file names in turn; \<open>None\<close> when both loops run out.\<close>

fun probe_patterns :: "(string \<Rightarrow> bool) \<Rightarrow> string list \<Rightarrow> string list \<Rightarrow> string option" where
  "probe_patterns path_exists [] thumbnail_patterns = None"
| "probe_patterns path_exists (pattern # ps) thumbnail_patterns =
     (case probe_dirs path_exists pattern thumbnail_patterns of
        Some thumb_path \<Rightarrow> Some thumb_path
      | None \<Rightarrow> probe_patterns path_exists ps thumbnail_patterns)"

text \<open>
  The parameter \<open>thumbnail_patterns\<close> is, despite its name, the ordered list of candidate
  directories (the callers pass \<open>[THUMBNAIL_DIR, INPUT_DIR]\<close> or \<open>[thumb_dir]\<close>).
\<close>

definition find_matching_thumbnail ::
  "(string \<Rightarrow> bool) \<Rightarrow> string \<Rightarrow> string list \<Rightarrow> string option" where
  "find_matching_thumbnail path_exists video_file thumbnail_patterns =
     (let video_name = fst (splitext (basename video_file))
      in probe_patterns path_exists (patterns video_name) thumbnail_patterns)"

text \<open>
  The resolution order in the words of the specification, for comparison with the code:
  directory order takes precedence, all file names being tried in the first directory
  before any is tried in the second.
\<close>

definition directory_major_candidates :: "string \<Rightarrow> string list \<Rightarrow> string list" where
  "directory_major_candidates video_file dirs =
     concat (map (\<lambda>d. map (join d) (patterns (fst (splitext (basename video_file))))) dirs)"

definition directory_major_resolve ::
  "(string \<Rightarrow> bool) \<Rightarrow> string \<Rightarrow> string list \<Rightarrow> string option" where
  "directory_major_resolve path_exists video_file dirs =
     List.find path_exists (directory_major_candidates video_file dirs)"

text \<open>The order the code probes in: every directory for the first file name, and so on.\<close>

definition pattern_major_candidates :: "string \<Rightarrow> string list \<Rightarrow> string list" where
  "pattern_major_candidates video_file dirs =
     concat (map (\<lambda>p. map (\<lambda>d. join d p) dirs) (patterns (fst (splitext (basename video_file)))))"

text \<open>
  A file system with two thumbnail directories that each hold a match for \<open>v.mp4\<close>:
  \<open>A\<close> holds \<open>v.png\<close> (the third file name), \<open>B\<close> holds \<open>v_thumb.png\<close> (the first).
\<close>

definition two_dirs_fs :: "string \<Rightarrow> bool" where
  "two_dirs_fs p = (p = ''A/v.png'' \<or> p = ''B/v_thumb.png'')"

section \<open>The worker-pool size of the two scripts\<close>

text \<open>
  \<open>MAX_WORKERS = min(multiprocessing.cpu_count(), 4)\<close>, thumbnail\_adder.py line 24 and
  watermark\_adder.py line 31; the machine's CPU count is the parameter.
\<close>

definition thumbnail_MAX_WORKERS :: "int \<Rightarrow> int" where
  "thumbnail_MAX_WORKERS cpu_count = min cpu_count 4"

definition watermark_MAX_WORKERS :: "int \<Rightarrow> int" where
  "watermark_MAX_WORKERS cpu_count = min cpu_count 4"

section \<open>The compositing library and the state of a call\<close>

text \<open>
  Both scripts log through \<open>thread_safe_log(message, level)\<close>, which takes a lock and calls
  \<open>logging.info\<close>, \<open>logging.error\<close> or \<open>logging.warning\<close>. A message is modelled by its
  kind and the values formatted into it; the elapsed time that two messages carry is
  left out.
\<close>

datatype level = INFO | ERROR | WARNING

datatype message =
    Thumbnail_file_not_found string
  | Fade_effects_not_available
  | Could_not_apply_fade string
  | Thumbnail_added_to string
  | Thumbnail_shown string rat
  | Main_watermark_not_found string
  | Last5_watermark_not_found string
  | Watermarks_added_to string
  | Main_watermark_at int int
  | Last5_watermark_at int int
  | Error_processing string string
  | Input_file_not_found string
  | Processing string string
  | Completed string
  | Failed string
  | Video_generated_exception string string

text \<open>
  A clip of the library, by what the scripts set on it: the file it was read from, its
  duration, the time at which it starts in a composite, the position given by
  \<open>set_position\<close>, the frame size (given by \<open>resized\<close>, or the file's own for a video)
  and the fade applied to it (the method that applied it, and the fade duration). Times
  are Python floats in the source; the model takes them as exact rationals, so the
  rounding of \<open>duration - 5\<close> is not represented (comparisons, and halving, are exact on
  floats).
\<close>

record clip =
  clip_source :: string
  clip_duration :: rat
  clip_start :: rat
  clip_position :: "(int \<times> int) option"
  clip_size :: "(nat \<times> nat) option"
  clip_fade :: "(string \<times> rat) option"

datatype obj = Clip clip | Composite "clip list"

text \<open>
  The local variables of the two overlay functions that hold clips. \<open>locals s v = None\<close>
  is \<open>'v' not in locals()\<close>. A resource is identified with the variable it is bound to:
  \<open>thumbnail.resized(...)\<close> and the like return a copy that shares the image.
\<close>

datatype local_var = Video | Thumbnail | Watermark_main | Watermark_last | Final_video

text \<open>The calls into the library, each of which may raise.\<close>

datatype call =
    VideoFileClip_call string
  | ImageClip_call string
  | Method_call local_var string
  | CompositeVideoClip_call
  | Write_videofile_call string
  | Close_call local_var

text \<open>
  What a run depends on and the scripts do not decide: which paths exist, which library
  calls raise (and the text of the exception), the duration and frame size of a video
  file, and which attributes \<open>hasattr\<close> finds on an image clip. Every exception of the
  model is an instance of \<open>Exception\<close>, the class that each handler of the scripts names.
\<close>

record world =
  fs_exists :: "string \<Rightarrow> bool"
  lib_raises :: "call \<Rightarrow> string option"
  file_duration :: "string \<Rightarrow> rat"
  file_size :: "string \<Rightarrow> nat \<times> nat"
  clip_has_attr :: "string \<Rightarrow> bool"

text \<open>
  The state threaded through a call: the local variables, the \<open>close()\<close> calls that
  completed (in order), the log, and the files written with the layers composited into
  them.
\<close>

record st =
  locals :: "local_var \<Rightarrow> obj option"
  released :: "local_var list"
  logs :: "(level \<times> message) list"
  written :: "(string \<times> clip list) list"

definition st0 :: st where
  "st0 = \<lparr>locals = (\<lambda>_. None), released = [], logs = [], written = []\<rparr>"

text \<open>A statement either raises (\<open>Inl\<close>, with the exception's text) or yields a value.\<close>

type_synonym 'a prog = "st \<Rightarrow> (string + 'a) \<times> st"

definition ret :: "'a \<Rightarrow> 'a prog" where
  "ret x s = (Inr x, s)"

definition seq :: "'a prog \<Rightarrow> ('a \<Rightarrow> 'b prog) \<Rightarrow> 'b prog" where
  "seq m f s = (case m s of (Inl e, s') \<Rightarrow> (Inl e, s') | (Inr x, s') \<Rightarrow> f x s')"

definition try_except :: "'a prog \<Rightarrow> (string \<Rightarrow> 'a prog) \<Rightarrow> 'a prog" where
  "try_except m handler s = (case m s of (Inl e, s') \<Rightarrow> handler e s' | (Inr x, s') \<Rightarrow> (Inr x, s'))"

definition thread_safe_log :: "message \<Rightarrow> level \<Rightarrow> unit prog" where
  "thread_safe_log m l s = (Inr (), s\<lparr>logs := logs s @ [(l, m)]\<rparr>)"

definition lib :: "world \<Rightarrow> call \<Rightarrow> unit prog" where
  "lib w c s = (case lib_raises w c of Some e \<Rightarrow> (Inl e, s) | None \<Rightarrow> (Inr (), s))"

definition fresh_locals :: "unit prog" where
  "fresh_locals s = (Inr (), s\<lparr>locals := (\<lambda>_. None)\<rparr>)"

definition assign :: "local_var \<Rightarrow> obj \<Rightarrow> unit prog" where
  "assign v x s = (Inr (), s\<lparr>locals := (locals s)(v \<mapsto> x)\<rparr>)"

definition modify_clip :: "local_var \<Rightarrow> (clip \<Rightarrow> clip) \<Rightarrow> unit prog" where
  "modify_clip v f s =
     (Inr (), s\<lparr>locals := (locals s)
        (v := (case locals s v of Some (Clip c) \<Rightarrow> Some (Clip (f c)) | other \<Rightarrow> other))\<rparr>)"

definition when_bound :: "local_var \<Rightarrow> unit prog \<Rightarrow> unit prog" where
  "when_bound v m s = (if locals s v \<noteq> None then m s else (Inr (), s))"

definition close :: "world \<Rightarrow> local_var \<Rightarrow> unit prog" where
  "close w v = seq (lib w (Close_call v)) (\<lambda>_ s. (Inr (), s\<lparr>released := released s @ [v]\<rparr>))"

definition VideoFileClip :: "world \<Rightarrow> string \<Rightarrow> unit prog" where
  "VideoFileClip w input_path =
     seq (lib w (VideoFileClip_call input_path)) (\<lambda>_.
     assign Video (Clip \<lparr>clip_source = input_path, clip_duration = file_duration w input_path,
        clip_start = 0, clip_position = None, clip_size = Some (file_size w input_path),
        clip_fade = None\<rparr>))"

definition ImageClip :: "world \<Rightarrow> local_var \<Rightarrow> string \<Rightarrow> rat \<Rightarrow> unit prog" where
  "ImageClip w v path duration =
     seq (lib w (ImageClip_call path)) (\<lambda>_.
     assign v (Clip \<lparr>clip_source = path, clip_duration = duration, clip_start = 0,
        clip_position = None, clip_size = None, clip_fade = None\<rparr>))"

definition clips_of :: "st \<Rightarrow> local_var list \<Rightarrow> clip list" where
  "clips_of s vs = concat (map (\<lambda>v. case locals s v of Some (Clip c) \<Rightarrow> [c] | _ \<Rightarrow> []) vs)"

definition CompositeVideoClip :: "world \<Rightarrow> local_var list \<Rightarrow> unit prog" where
  "CompositeVideoClip w vs =
     seq (lib w CompositeVideoClip_call) (\<lambda>_ s.
     assign Final_video (Composite (clips_of s vs)) s)"

definition layers :: "st \<Rightarrow> clip list" where
  "layers s = (case locals s Final_video of Some (Composite cs) \<Rightarrow> cs | _ \<Rightarrow> [])"

definition write_videofile :: "world \<Rightarrow> string \<Rightarrow> unit prog" where
  "write_videofile w output_path =
     seq (lib w (Write_videofile_call output_path)) (\<lambda>_ s.
     (Inr (), s\<lparr>written := written s @ [(output_path, layers s)]\<rparr>))"

section \<open>thumbnail\_adder.py: add\_thumbnail\_to\_video\<close>

definition THUMBNAIL_DURATION :: rat where
  "THUMBNAIL_DURATION = 1 / 10"

definition THUMBNAIL_FADE_DURATION :: rat where
  "THUMBNAIL_FADE_DURATION = 1 / 10"

definition thumbnail_OUTPUT_DIR :: string where
  "thumbnail_OUTPUT_DIR =
     ''/Users/umesh/Developer/projects/youtube/data/output_videos/wisdom_waves/upload''"

text \<open>
  Lines 64-75: the first fade method that \<open>hasattr\<close> finds is called, with its
  counterpart; the variable is rebound only when both calls return. An exception is
  caught here and logged as a warning.
\<close>

definition fade_with :: "world \<Rightarrow> string \<Rightarrow> string \<Rightarrow> rat \<Rightarrow> unit prog" where
  "fade_with w fade_in_name fade_out_name fade_duration =
     seq (lib w (Method_call Thumbnail fade_in_name)) (\<lambda>_.
     seq (lib w (Method_call Thumbnail fade_out_name)) (\<lambda>_.
     modify_clip Thumbnail (\<lambda>c. c\<lparr>clip_fade := Some (fade_in_name, fade_duration)\<rparr>)))"

definition apply_fade :: "world \<Rightarrow> rat \<Rightarrow> unit prog" where
  "apply_fade w fade_duration =
     try_except
       (if clip_has_attr w ''fadein'' then fade_with w ''fadein'' ''fadeout'' fade_duration
        else if clip_has_attr w ''fade_in'' then fade_with w ''fade_in'' ''fade_out'' fade_duration
        else if clip_has_attr w ''crossfadein''
          then fade_with w ''crossfadein'' ''crossfadeout'' fade_duration
        else thread_safe_log Fade_effects_not_available WARNING)
       (\<lambda>fade_error. thread_safe_log (Could_not_apply_fade fade_error) WARNING)"

text \<open>Lines 77-102: from \<open>with_start\<close> to the \<open>return True\<close>.\<close>

definition thumbnail_compose_and_write ::
  "world \<Rightarrow> string \<Rightarrow> string \<Rightarrow> string \<Rightarrow> rat \<Rightarrow> bool prog" where
  "thumbnail_compose_and_write w input_path output_path thumbnail_path duration =
     (let video_duration = file_duration w input_path in
      seq (lib w (Method_call Thumbnail ''with_start'')) (\<lambda>_.
      seq (modify_clip Thumbnail (\<lambda>c. c\<lparr>clip_start := video_duration\<rparr>)) (\<lambda>_.
      seq (CompositeVideoClip w [Video, Thumbnail]) (\<lambda>_.
      seq (write_videofile w output_path) (\<lambda>_.
      seq (close w Video) (\<lambda>_.
      seq (close w Thumbnail) (\<lambda>_.
      seq (close w Final_video) (\<lambda>_.
      seq (thread_safe_log (Thumbnail_added_to (basename input_path)) INFO) (\<lambda>_.
      seq (thread_safe_log (Thumbnail_shown (basename thumbnail_path) duration) INFO) (\<lambda>_.
      ret True))))))))))"

text \<open>Lines 47-102: the body of the \<open>try\<close>.\<close>

definition add_thumbnail_try ::
  "world \<Rightarrow> string \<Rightarrow> string \<Rightarrow> string \<Rightarrow> rat \<Rightarrow> rat \<Rightarrow> bool prog" where
  "add_thumbnail_try w input_path output_path thumbnail_path duration fade_duration =
     seq (VideoFileClip w input_path) (\<lambda>_.
     let video_size = file_size w input_path in
     if \<not> fs_exists w thumbnail_path then
       seq (thread_safe_log (Thumbnail_file_not_found thumbnail_path) ERROR) (\<lambda>_.
       seq (close w Video) (\<lambda>_.
       ret False))
     else
       seq (ImageClip w Thumbnail thumbnail_path duration) (\<lambda>_.
       seq (lib w (Method_call Thumbnail ''resized'')) (\<lambda>_.
       seq (modify_clip Thumbnail (\<lambda>c. c\<lparr>clip_size := Some video_size\<rparr>)) (\<lambda>_.
       seq (if fade_duration > 0 \<and> fade_duration < duration / 2
            then apply_fade w fade_duration else ret ()) (\<lambda>_.
       thumbnail_compose_and_write w input_path output_path thumbnail_path duration)))))"

text \<open>
  Lines 104-117: the handler logs the error, closes what is bound inside one
  \<open>try\<close> whose bare \<open>except\<close> passes, and returns False.
\<close>

definition add_thumbnail_except :: "world \<Rightarrow> string \<Rightarrow> string \<Rightarrow> bool prog" where
  "add_thumbnail_except w input_path e =
     seq (thread_safe_log (Error_processing (basename input_path) e) ERROR) (\<lambda>_.
     seq (try_except
            (seq (when_bound Video (close w Video)) (\<lambda>_.
             seq (when_bound Thumbnail (close w Thumbnail)) (\<lambda>_.
             when_bound Final_video (close w Final_video))))
            (\<lambda>_. ret ())) (\<lambda>_.
     ret False))"

definition add_thumbnail_to_video ::
  "world \<Rightarrow> string \<Rightarrow> string \<Rightarrow> string \<Rightarrow> rat \<Rightarrow> rat \<Rightarrow> bool prog" where
  "add_thumbnail_to_video w input_path output_path thumbnail_path duration fade_duration =
     seq fresh_locals (\<lambda>_.
     try_except
       (add_thumbnail_try w input_path output_path thumbnail_path duration fade_duration)
       (add_thumbnail_except w input_path))"

text \<open>Lines 120-145; a task is \<open>(input_file, output_file, thumbnail_file, progress_info)\<close>.\<close>

definition thumbnail_process_single_video_threaded ::
  "world \<Rightarrow> string \<times> string \<times> string \<times> string \<Rightarrow> (bool \<times> string) prog" where
  "thumbnail_process_single_video_threaded w video_info =
     (case video_info of (input_file, output_file, thumbnail_file, progress_info) \<Rightarrow>
      if \<not> fs_exists w input_file then
        seq (thread_safe_log (Input_file_not_found input_file) ERROR) (\<lambda>_.
        ret (False, input_file))
      else
        seq (thread_safe_log (Processing progress_info (basename input_file)) INFO) (\<lambda>_.
        seq (add_thumbnail_to_video w input_file output_file thumbnail_file
               THUMBNAIL_DURATION THUMBNAIL_FADE_DURATION) (\<lambda>success.
        seq (if success then thread_safe_log (Completed (basename input_file)) INFO
             else thread_safe_log (Failed (basename input_file)) ERROR) (\<lambda>_.
        ret (success, input_file)))))"

text \<open>Lines 148-169; \<open>logging.error\<close> writes to the same log.\<close>

definition thumbnail_process_single_video ::
  "world \<Rightarrow> string \<Rightarrow> string \<Rightarrow> string option \<Rightarrow> bool prog" where
  "thumbnail_process_single_video w input_file thumbnail_file output_file =
     (if \<not> fs_exists w input_file then
        seq (thread_safe_log (Input_file_not_found input_file) ERROR) (\<lambda>_. ret False)
      else if \<not> fs_exists w thumbnail_file then
        seq (thread_safe_log (Thumbnail_file_not_found thumbnail_file) ERROR) (\<lambda>_. ret False)
      else
        let output_file' =
          (case output_file of
             None \<Rightarrow>
               (case splitext (basename input_file) of (name, ext) \<Rightarrow>
                  join thumbnail_OUTPUT_DIR (name @ ''_with_thumbnail'' @ ext))
           | Some f \<Rightarrow> f)
        in add_thumbnail_to_video w input_file output_file' thumbnail_file
             THUMBNAIL_DURATION THUMBNAIL_FADE_DURATION)"

text \<open>The fade that the thumbnail clip of a state carries, if any.\<close>

definition thumbnail_fade :: "st \<Rightarrow> (string \<times> rat) option" where
  "thumbnail_fade s = (case locals s Thumbnail of Some (Clip c) \<Rightarrow> clip_fade c | _ \<Rightarrow> None)"

section \<open>watermark\_adder.py: add\_watermark\_to\_video\<close>

definition WATERMARK_PATH :: string where
  "WATERMARK_PATH = ''/Users/umesh/Developer/projects/youtube/assets/watermark/logo.png''"

definition WATERMARK_PATH_LAST_5SEC :: string where
  "WATERMARK_PATH_LAST_5SEC =
     ''/Users/umesh/Developer/projects/youtube/assets/watermark/subscribe.png''"

definition WATERMARK_X :: int where "WATERMARK_X = 515"

definition WATERMARK_Y :: int where "WATERMARK_Y = 330"

definition WATERMARK_X_LAST_5SEC :: int where "WATERMARK_X_LAST_5SEC = 235"

definition WATERMARK_Y_LAST_5SEC :: int where "WATERMARK_Y_LAST_5SEC = 960"

definition watermark_OUTPUT_DIR :: string where
  "watermark_OUTPUT_DIR =
     ''/Users/umesh/Developer/projects/youtube/data/output_videos/wisdom_waves''"

text \<open>
  Lines 74-83: the second overlay. In the branch for a longer video the variable is
  bound by \<open>ImageClip\<close> first and rebound after \<open>set_position\<close> and \<open>set_start\<close> have both
  returned.
\<close>

definition place_last_watermark ::
  "world \<Rightarrow> rat \<Rightarrow> string \<Rightarrow> int \<Rightarrow> int \<Rightarrow> unit prog" where
  "place_last_watermark w duration watermark_path_last5 x_pos_last y_pos_last =
     (if duration \<le> 5 then
        seq (ImageClip w Watermark_last watermark_path_last5 duration) (\<lambda>_.
        seq (lib w (Method_call Watermark_last ''set_position'')) (\<lambda>_.
        seq (modify_clip Watermark_last
               (\<lambda>c. c\<lparr>clip_position := Some (x_pos_last, y_pos_last)\<rparr>)) (\<lambda>_.
        CompositeVideoClip w [Video, Watermark_main, Watermark_last])))
      else
        seq (ImageClip w Watermark_last watermark_path_last5 5) (\<lambda>_.
        seq (lib w (Method_call Watermark_last ''set_position'')) (\<lambda>_.
        seq (lib w (Method_call Watermark_last ''set_start'')) (\<lambda>_.
        seq (modify_clip Watermark_last
               (\<lambda>c. c\<lparr>clip_position := Some (x_pos_last, y_pos_last),
                       clip_start := duration - 5\<rparr>)) (\<lambda>_.
        CompositeVideoClip w [Video, Watermark_main, Watermark_last])))))"

text \<open>Lines 70-107: from the main overlay to the \<open>return True\<close>.\<close>

definition watermark_compose_and_write ::
  "world \<Rightarrow> string \<Rightarrow> string \<Rightarrow> string \<Rightarrow> string \<Rightarrow> int \<Rightarrow> int \<Rightarrow> int \<Rightarrow> int \<Rightarrow> bool prog" where
  "watermark_compose_and_write w input_path output_path watermark_path_main
       watermark_path_last5 x_pos y_pos x_pos_last y_pos_last =
     (let duration = file_duration w input_path in
      seq (ImageClip w Watermark_main watermark_path_main duration) (\<lambda>_.
      seq (lib w (Method_call Watermark_main ''set_position'')) (\<lambda>_.
      seq (modify_clip Watermark_main (\<lambda>c. c\<lparr>clip_position := Some (x_pos, y_pos)\<rparr>)) (\<lambda>_.
      seq (place_last_watermark w duration watermark_path_last5 x_pos_last y_pos_last) (\<lambda>_.
      seq (write_videofile w output_path) (\<lambda>_.
      seq (close w Video) (\<lambda>_.
      seq (close w Watermark_main) (\<lambda>_.
      seq (close w Watermark_last) (\<lambda>_.
      seq (close w Final_video) (\<lambda>_.
      seq (thread_safe_log (Watermarks_added_to (basename input_path)) INFO) (\<lambda>_.
      seq (thread_safe_log (Main_watermark_at x_pos y_pos) INFO) (\<lambda>_.
      seq (thread_safe_log (Last5_watermark_at x_pos_last y_pos_last) INFO) (\<lambda>_.
      ret True)))))))))))))"

text \<open>
  Lines 58-107: the body of the \<open>try\<close>. The branch for a missing main watermark logs
  and returns False (lines 63-65); a missing second watermark is replaced by the main
  one (lines 66-68).
\<close>

definition add_watermark_try ::
  "world \<Rightarrow> string \<Rightarrow> string \<Rightarrow> string \<Rightarrow> string \<Rightarrow> int \<Rightarrow> int \<Rightarrow> int \<Rightarrow> int \<Rightarrow> bool prog" where
  "add_watermark_try w input_path output_path watermark_path_main watermark_path_last5
       x_pos y_pos x_pos_last y_pos_last =
     seq (VideoFileClip w input_path) (\<lambda>_.
     if \<not> fs_exists w watermark_path_main then
       seq (thread_safe_log (Main_watermark_not_found watermark_path_main) ERROR) (\<lambda>_.
       ret False)
     else if \<not> fs_exists w watermark_path_last5 then
       seq (thread_safe_log (Last5_watermark_not_found watermark_path_last5) WARNING) (\<lambda>_.
       watermark_compose_and_write w input_path output_path watermark_path_main
         watermark_path_main x_pos y_pos x_pos_last y_pos_last)
     else
       watermark_compose_and_write w input_path output_path watermark_path_main
         watermark_path_last5 x_pos y_pos x_pos_last y_pos_last)"

text \<open>
  Lines 109-133: the handler logs the error, closes each bound variable inside a
  \<open>try\<close> of its own, and returns False.
\<close>

definition close_quietly :: "world \<Rightarrow> local_var \<Rightarrow> unit prog" where
  "close_quietly w v = when_bound v (try_except (close w v) (\<lambda>_. ret ()))"

definition add_watermark_except :: "world \<Rightarrow> string \<Rightarrow> string \<Rightarrow> bool prog" where
  "add_watermark_except w input_path e =
     seq (thread_safe_log (Error_processing (basename input_path) e) ERROR) (\<lambda>_.
     seq (close_quietly w Video) (\<lambda>_.
     seq (close_quietly w Watermark_main) (\<lambda>_.
     seq (close_quietly w Watermark_last) (\<lambda>_.
     seq (close_quietly w Final_video) (\<lambda>_.
     ret False)))))"

definition add_watermark_to_video ::
  "world \<Rightarrow> string \<Rightarrow> string \<Rightarrow> string \<Rightarrow> string \<Rightarrow> int \<Rightarrow> int \<Rightarrow> int \<Rightarrow> int \<Rightarrow> bool prog" where
  "add_watermark_to_video w input_path output_path watermark_path_main watermark_path_last5
       x_pos y_pos x_pos_last y_pos_last =
     seq fresh_locals (\<lambda>_.
     try_except
       (add_watermark_try w input_path output_path watermark_path_main watermark_path_last5
          x_pos y_pos x_pos_last y_pos_last)
       (add_watermark_except w input_path))"

text \<open>Lines 136-164; a task is \<open>(input_file, output_file, progress_info)\<close>.\<close>

definition watermark_process_single_video_threaded ::
  "world \<Rightarrow> string \<times> string \<times> string \<Rightarrow> (bool \<times> string) prog" where
  "watermark_process_single_video_threaded w video_info =
     (case video_info of (input_file, output_file, progress_info) \<Rightarrow>
      if \<not> fs_exists w input_file then
        seq (thread_safe_log (Input_file_not_found input_file) ERROR) (\<lambda>_.
        ret (False, input_file))
      else
        seq (thread_safe_log (Processing progress_info (basename input_file)) INFO) (\<lambda>_.
        seq (add_watermark_to_video w input_file output_file WATERMARK_PATH
               WATERMARK_PATH_LAST_5SEC WATERMARK_X WATERMARK_Y
               WATERMARK_X_LAST_5SEC WATERMARK_Y_LAST_5SEC) (\<lambda>success.
        seq (if success then thread_safe_log (Completed (basename input_file)) INFO
             else thread_safe_log (Failed (basename input_file)) ERROR) (\<lambda>_.
        ret (success, input_file)))))"

section \<open>process\_directory: collecting the results of the pool\<close>

text \<open>
  What \<open>future.result()\<close> does for a finished task: it returns the pair
  \<open>(success, input_file)\<close> of \<open>process_single_video_threaded\<close>, or raises the exception
  with which the task ended.
\<close>

datatype outcome = Returned bool string | Raised string

text \<open>The counters of \<open>process_directory\<close> and the log lines its loop writes.\<close>

record tally =
  success_count :: nat
  failed_files :: "string list"
  pool_logs :: "(level \<times> message) list"

definition tally0 :: tally where
  "tally0 = \<lparr>success_count = 0, failed_files = [], pool_logs = []\<rparr>"

text \<open>
  The body of the loop over \<open>as_completed(future_to_video)\<close>, the same in both scripts
  (thumbnail\_adder.py lines 320-330, watermark\_adder.py lines 238-248). A future comes
  with \<open>future_to_video[future]\<close>, the input path of its task.
\<close>

fun record_result :: "tally \<Rightarrow> string \<times> outcome \<Rightarrow> tally" where
  "record_result t (task_input, Returned success input_file) =
     (if success then t\<lparr>success_count := success_count t + 1\<rparr>
      else t\<lparr>failed_files := failed_files t @ [basename input_file]\<rparr>)"
| "record_result t (task_input, Raised exc) =
     t\<lparr>pool_logs := pool_logs t @
          [(ERROR, Video_generated_exception (basename task_input) exc)],
       failed_files := failed_files t @ [basename task_input]\<rparr>"

fun collect :: "(string \<times> outcome) list \<Rightarrow> tally \<Rightarrow> tally" where
  "collect [] t = t"
| "collect (future # futures) t = collect futures (record_result t future)"

text \<open>
  The pool section of \<open>process_directory\<close>: \<open>futures\<close> holds, for each submitted task in
  submission order, the task's input path and the outcome of its future; \<open>order\<close> is the
  order in which \<open>as_completed\<close> yields the futures, by their index in \<open>futures\<close>.
  \<open>completion_order\<close> says that every future of the dictionary is yielded once.
\<close>

definition completion_order :: "nat \<Rightarrow> nat list \<Rightarrow> bool" where
  "completion_order n order = (distinct order \<and> set order = {0..<n})"

definition as_completed :: "(string \<times> outcome) list \<Rightarrow> nat list \<Rightarrow> (string \<times> outcome) list" where
  "as_completed futures order = map (\<lambda>i. futures ! i) order"

definition process_directory_pool :: "(string \<times> outcome) list \<Rightarrow> nat list \<Rightarrow> tally" where
  "process_directory_pool futures order = collect (as_completed futures order) tally0"

text \<open>
  \<open>executor.submit(process_single_video_threaded, task)\<close> for each task: the future holds
  what the task function returns, or the exception it ends with.
\<close>

definition outcome_of :: "(string + bool \<times> string) \<times> st \<Rightarrow> outcome" where
  "outcome_of r =
     (case fst r of Inl exc \<Rightarrow> Raised exc | Inr (success, input_file) \<Rightarrow> Returned success input_file)"

definition thumbnail_submit ::
  "world \<Rightarrow> (string \<times> string \<times> string \<times> string) list \<Rightarrow> (string \<times> outcome) list" where
  "thumbnail_submit w video_tasks =
     map (\<lambda>task. (fst task, outcome_of (thumbnail_process_single_video_threaded w task st0)))
       video_tasks"

definition watermark_submit ::
  "world \<Rightarrow> (string \<times> string \<times> string) list \<Rightarrow> (string \<times> outcome) list" where
  "watermark_submit w video_tasks =
     map (\<lambda>task. (fst task, outcome_of (watermark_process_single_video_threaded w task st0)))
       video_tasks"

section \<open>Worlds for running the model\<close>

text \<open>
  A world in which every path exists and no library call raises; videos last ten
  seconds, and image clips have the methods \<open>fadein\<close> and \<open>fadeout\<close>.
\<close>

definition quiet_world :: world where
  "quiet_world =
     \<lparr>fs_exists = (\<lambda>_. True), lib_raises = (\<lambda>_. None), file_duration = (\<lambda>_. 10),
      file_size = (\<lambda>_. (1920, 1080)), clip_has_attr = (\<lambda>a. a = ''fadein'')\<rparr>"

text \<open>The same world with three-second videos.\<close>

definition short_world :: world where
  "short_world = quiet_world\<lparr>file_duration := (\<lambda>_. 3)\<rparr>"

text \<open>The same world, in which the main watermark \<open>logo.png\<close> does not exist.\<close>

definition no_logo_world :: world where
  "no_logo_world = quiet_world\<lparr>fs_exists := (\<lambda>p. p \<noteq> ''logo.png'')\<rparr>"

text \<open>The same world, in which the second watermark \<open>subscribe.png\<close> does not exist.\<close>

definition no_subscribe_world :: world where
  "no_subscribe_world = quiet_world\<lparr>fs_exists := (\<lambda>p. p \<noteq> ''subscribe.png'')\<rparr>"

text \<open>The same world, in which image clips have none of the three fade methods.\<close>

definition no_fade_world :: world where
  "no_fade_world = quiet_world\<lparr>clip_has_attr := (\<lambda>_. False)\<rparr>"

text \<open>The same world, in which writing the output file raises.\<close>

definition write_fails_world :: world where
  "write_fails_world =
     quiet_world\<lparr>lib_raises :=
       (\<lambda>c. case c of Write_videofile_call _ \<Rightarrow> Some ''encoder failed'' | _ \<Rightarrow> None)\<rparr>"

section \<open>Reasoning about runs\<close>

text \<open>
  \<open>wp m Q E s\<close>: running \<open>m\<close> from \<open>s\<close> ends in a state that satisfies \<open>Q\<close> with the value
  returned, or \<open>E\<close> with the exception raised.
\<close>

definition wp :: "'a prog \<Rightarrow> ('a \<Rightarrow> st \<Rightarrow> bool) \<Rightarrow> (string \<Rightarrow> st \<Rightarrow> bool) \<Rightarrow> st \<Rightarrow> bool" where
  "wp m Q E s = (case m s of (Inr x, s') \<Rightarrow> Q x s' | (Inl e, s') \<Rightarrow> E e s')"

text \<open>
  What the handler of \<open>add_watermark_to_video\<close> closes: every bound variable whose
  \<open>close()\<close> does not raise.
\<close>

definition wm_closes :: "world \<Rightarrow> st \<Rightarrow> local_var list" where
  "wm_closes w s =
     filter (\<lambda>v. locals s v \<noteq> None \<and> lib_raises w (Close_call v) = None)
       [Video, Watermark_main, Watermark_last, Final_video]"

text \<open>
  What the handler of \<open>add_thumbnail_to_video\<close> closes: the bound variables in turn, up
  to the first whose \<open>close()\<close> raises.
\<close>

definition th_closes :: "world \<Rightarrow> st \<Rightarrow> local_var list" where
  "th_closes w s =
     takeWhile (\<lambda>v. lib_raises w (Close_call v) = None)
       (filter (\<lambda>v. locals s v \<noteq> None) [Video, Thumbnail, Final_video])"

definition no_raise :: "world \<Rightarrow> call list \<Rightarrow> bool" where
  "no_raise w cs = list_all (\<lambda>c. lib_raises w c = None) cs"

text \<open>
  The library calls of \<open>add_thumbnail_to_video\<close> on the way to \<open>return True\<close>, the fade
  methods apart.
\<close>

definition thumbnail_calls :: "string \<Rightarrow> string \<Rightarrow> string \<Rightarrow> call list" where
  "thumbnail_calls input_path output_path thumbnail_path =
     [VideoFileClip_call input_path, ImageClip_call thumbnail_path,
      Method_call Thumbnail ''resized'', Method_call Thumbnail ''with_start'',
      CompositeVideoClip_call, Write_videofile_call output_path,
      Close_call Video, Close_call Thumbnail, Close_call Final_video]"

text \<open>
  The library calls of \<open>add_watermark_to_video\<close> on the way to \<open>return True\<close>, for a
  video of the given duration and the two image paths that are opened.
\<close>

definition watermark_calls :: "rat \<Rightarrow> string \<Rightarrow> string \<Rightarrow> string \<Rightarrow> string \<Rightarrow> call list" where
  "watermark_calls duration input_path output_path path_main path_last =
     [VideoFileClip_call input_path, ImageClip_call path_main,
      Method_call Watermark_main ''set_position'', ImageClip_call path_last,
      Method_call Watermark_last ''set_position''] @
     (if duration \<le> 5 then [] else [Method_call Watermark_last ''set_start'']) @
     [CompositeVideoClip_call, Write_videofile_call output_path,
      Close_call Video, Close_call Watermark_main, Close_call Watermark_last,
      Close_call Final_video]"

text \<open>
  The pair of fade methods that lines 66-71 select, and whether fading is unavailable:
  no method is found, or one of the two calls raises.
\<close>

definition selected_fade :: "world \<Rightarrow> (string \<times> string) option" where
  "selected_fade w =
     (if clip_has_attr w ''fadein'' then Some (''fadein'', ''fadeout'')
      else if clip_has_attr w ''fade_in'' then Some (''fade_in'', ''fade_out'')
      else if clip_has_attr w ''crossfadein'' then Some (''crossfadein'', ''crossfadeout'')
      else None)"

definition fade_unavailable :: "world \<Rightarrow> bool" where
  "fade_unavailable w =
     (case selected_fade w of
        None \<Rightarrow> True
      | Some (fade_in_name, fade_out_name) \<Rightarrow>
          lib_raises w (Method_call Thumbnail fade_in_name) \<noteq> None \<or>
          lib_raises w (Method_call Thumbnail fade_out_name) \<noteq> None)"

definition fade_warning :: "level \<times> message \<Rightarrow> bool" where
  "fade_warning lm =
     (case lm of
        (WARNING, Fade_effects_not_available) \<Rightarrow> True
      | (WARNING, Could_not_apply_fade _) \<Rightarrow> True
      | _ \<Rightarrow> False)"

text \<open>Whether a future counts as a success in \<open>process_directory\<close>, and the name it is listed under otherwise.\<close>

fun succeeded :: "string \<times> outcome \<Rightarrow> bool" where
  "succeeded (task_input, Returned success input_file) = success"
| "succeeded (task_input, Raised exc) = False"

fun failed_name :: "string \<times> outcome \<Rightarrow> string" where
  "failed_name (task_input, Returned success input_file) = basename input_file"
| "failed_name (task_input, Raised exc) = basename task_input"

text \<open>
  A state without any trace of a fade: the thumbnail clip carries none, no layer of the
  composite or of a written file carries one, and no fade warning was logged.
\<close>

definition unfaded :: "st \<Rightarrow> bool" where
  "unfaded s =
     (thumbnail_fade s = None \<and>
      list_all (\<lambda>c. clip_fade c = None) (layers s) \<and>
      list_all (\<lambda>f. list_all (\<lambda>c. clip_fade c = None) (snd f)) (written s) \<and>
      \<not> list_ex fade_warning (logs s))"

text \<open>
  The exception that ends a run of library calls made in the given order: that of the
  first call that raises.
\<close>

definition first_raise :: "world \<Rightarrow> call list \<Rightarrow> string option" where
  "first_raise w cs =
     (case List.find (\<lambda>c. lib_raises w c \<noteq> None) cs of
        None \<Rightarrow> None
      | Some c \<Rightarrow> lib_raises w c)"

text \<open>
  When the task function of each script returns True: the files it checks exist and
  none of the library calls on the way raises.
\<close>

definition thumbnail_task_ok :: "world \<Rightarrow> string \<times> string \<times> string \<times> string \<Rightarrow> bool" where
  "thumbnail_task_ok w video_info =
     (case video_info of (input_file, output_file, thumbnail_file, progress_info) \<Rightarrow>
        fs_exists w input_file \<and> fs_exists w thumbnail_file \<and>
        no_raise w (thumbnail_calls input_file output_file thumbnail_file))"

definition watermark_task_ok :: "world \<Rightarrow> string \<times> string \<times> string \<Rightarrow> bool" where
  "watermark_task_ok w video_info =
     (case video_info of (input_file, output_file, progress_info) \<Rightarrow>
        fs_exists w input_file \<and> fs_exists w WATERMARK_PATH \<and>
        no_raise w (watermark_calls (file_duration w input_file) input_file output_file
          WATERMARK_PATH
          (if fs_exists w WATERMARK_PATH_LAST_5SEC then WATERMARK_PATH_LAST_5SEC
           else WATERMARK_PATH)))"

text \<open>Three futures, the second of which raised, and the order in which they completed.\<close>

definition three_futures :: "(string \<times> outcome) list" where
  "three_futures =
     [(''in/x.mp4'', Returned True ''in/x.mp4''),
      (''in/y.mp4'', Raised ''boom''),
      (''in/z.mp4'', Returned False ''in/z.mp4'')]"

text \<open>
  A world like \<open>quiet_world\<close> in which writing \<open>out/b.mp4\<close> raises, and a batch of two
  tasks for each script, the second of which writes that file.
\<close>

definition b_fails_world :: world where
  "b_fails_world =
     quiet_world\<lparr>lib_raises :=
       (\<lambda>c. if c = Write_videofile_call ''out/b.mp4'' then Some ''encoder failed'' else None)\<rparr>"

definition two_thumbnail_tasks :: "(string \<times> string \<times> string \<times> string) list" where
  "two_thumbnail_tasks =
     [(''in/a.mp4'', ''out/a.mp4'', ''t/a.png'', ''1/2''),
      (''in/b.mp4'', ''out/b.mp4'', ''t/b.png'', ''2/2'')]"

definition two_watermark_tasks :: "(string \<times> string \<times> string) list" where
  "two_watermark_tasks =
     [(''in/a.mp4'', ''out/a.mp4'', ''1/2''), (''in/b.mp4'', ''out/b.mp4'', ''2/2'')]"


section \<open>Resolution order of find\_matching\_thumbnail\<close>

lemma probe_dirs_None:
  "probe_dirs f p ds = None \<longleftrightarrow> (\<forall>d \<in> set ds. \<not> f (join d p))"
  by (induction ds) (auto simp: Let_def)

lemma probe_dirs_first:
  "j < length ds \<Longrightarrow> f (join (ds ! j) p) \<Longrightarrow> (\<forall>j' < j. \<not> f (join (ds ! j') p))
   \<Longrightarrow> probe_dirs f p ds = Some (join (ds ! j) p)"
proof (induction ds arbitrary: j)
  case Nil
  then show ?case by simp
next
  case (Cons d ds)
  show ?case
  proof (cases j)
    case 0
    with Cons.prems show ?thesis by simp
  next
    case (Suc k)
    with Cons.prems have "\<not> f (join d p)" by auto
    moreover have "probe_dirs f p ds = Some (join (ds ! k) p)"
      using Cons.prems Suc by (intro Cons.IH) auto
    ultimately show ?thesis using Suc by simp
  qed
qed

lemma probe_patterns_first:
  "i < length ps \<Longrightarrow> probe_dirs f (ps ! i) ds = Some t
   \<Longrightarrow> (\<forall>i' < i. probe_dirs f (ps ! i') ds = None)
   \<Longrightarrow> probe_patterns f ps ds = Some t"
proof (induction ps arbitrary: i)
  case Nil
  then show ?case by simp
next
  case (Cons q qs)
  show ?case
  proof (cases i)
    case 0
    with Cons.prems show ?thesis by simp
  next
    case (Suc k)
    with Cons.prems have "probe_dirs f q ds = None" by auto
    moreover have "probe_patterns f qs ds = Some t"
      using Cons.prems Suc by (intro Cons.IH [of k]) auto
    ultimately show ?thesis by simp
  qed
qed

lemma probe_patterns_None:
  "probe_patterns f ps ds = None \<longleftrightarrow> (\<forall>p \<in> set ps. \<forall>d \<in> set ds. \<not> f (join d p))"
proof (induction ps)
  case Nil
  then show ?case by simp
next
  case (Cons q qs)
  show ?case
  proof (cases "probe_dirs f q ds")
    case None
    with Cons show ?thesis using probe_dirs_None [of f q ds] by simp
  next
    case (Some t)
    then have "\<not> (\<forall>d \<in> set ds. \<not> f (join d q))"
      using probe_dirs_None [of f q ds] by simp
    with Some show ?thesis by auto
  qed
qed

lemma probe_dirs_find: "probe_dirs f p ds = List.find f (map (\<lambda>d. join d p) ds)"
  by (induction ds) (auto simp: Let_def)

lemma find_append:
  "List.find f (xs @ ys) = (case List.find f xs of Some x \<Rightarrow> Some x | None \<Rightarrow> List.find f ys)"
  by (induction xs) auto

lemma probe_patterns_find:
  "probe_patterns f ps ds = List.find f (concat (map (\<lambda>p. map (\<lambda>d. join d p) ds) ps))"
  by (induction ps) (auto simp: probe_dirs_find find_append split: option.splits)

lemma find_matching_thumbnail_pattern_major:
  "find_matching_thumbnail f video_file dirs = List.find f (pattern_major_candidates video_file dirs)"
  by (simp add: find_matching_thumbnail_def pattern_major_candidates_def probe_patterns_find)

text \<open>
  Claim C2, as the source has it. The claim gives directory order precedence over the
  order of the file names; the loops of \<open>find_matching_thumbnail\<close> nest the other way
  (file names outside, directories inside). In \<open>two_dirs_fs\<close> both directories hold a
  match for \<open>v.mp4\<close>: the directory-first resolution of the claim finds \<open>A/v.png\<close> in the
  first directory, the function returns \<open>B/v_thumb.png\<close> from the second.
\<close>

theorem find_matching_thumbnail_directory_order_counterexample:
  "two_dirs_fs (join ''A'' (patterns (fst (splitext (basename ''in/v.mp4''))) ! 2)) \<and>
   two_dirs_fs (join ''B'' (patterns (fst (splitext (basename ''in/v.mp4''))) ! 0)) \<and>
   directory_major_resolve two_dirs_fs ''in/v.mp4'' [''A'', ''B''] = Some ''A/v.png'' \<and>
   find_matching_thumbnail two_dirs_fs ''in/v.mp4'' [''A'', ''B''] = Some ''B/v_thumb.png'' \<and>
   find_matching_thumbnail two_dirs_fs ''in/v.mp4'' [''A'', ''B'']
     \<noteq> directory_major_resolve two_dirs_fs ''in/v.mp4'' [''A'', ''B'']"
  by (simp add: basename_def splitext_def rfind_def patterns_def join_def two_dirs_fs_def
      find_matching_thumbnail_def directory_major_resolve_def directory_major_candidates_def)

text \<open>
  Claim C2, amended: the order of the file names takes precedence over the order of the
  directories. A match for file name \<open>i\<close> in directory \<open>j\<close> is returned when no
  earlier file name has a match in any directory and file name \<open>i\<close> has no match in an
  earlier directory; so for one and the same file name the earlier directory wins.
  The function returns \<open>None\<close> exactly when no file name exists in any directory.
\<close>

theorem find_matching_thumbnail_pattern_order_first:
  fixes path_exists :: "string \<Rightarrow> bool"
  defines "name video_file \<equiv> fst (splitext (basename video_file))"
  shows
   "(i < length (patterns (name video_file)) \<and> j < length dirs \<and>
     path_exists (join (dirs ! j) (patterns (name video_file) ! i)) \<and>
     (\<forall>i' j'. i' < length (patterns (name video_file)) \<and> j' < length dirs \<and>
              (i' < i \<or> (i' = i \<and> j' < j))
        \<longrightarrow> \<not> path_exists (join (dirs ! j') (patterns (name video_file) ! i')))
     \<longrightarrow> find_matching_thumbnail path_exists video_file dirs
          = Some (join (dirs ! j) (patterns (name video_file) ! i)))
    \<and> (find_matching_thumbnail path_exists video_file dirs = None
        \<longleftrightarrow> (\<forall>p \<in> set (patterns (name video_file)). \<forall>d \<in> set dirs. \<not> path_exists (join d p)))"
proof (intro conjI impI)
  let ?ps = "patterns (name video_file)"
  show "find_matching_thumbnail path_exists video_file dirs = None
        \<longleftrightarrow> (\<forall>p \<in> set ?ps. \<forall>d \<in> set dirs. \<not> path_exists (join d p))"
    by (simp add: find_matching_thumbnail_def name_def probe_patterns_None)
  assume a: "i < length ?ps \<and> j < length dirs \<and>
     path_exists (join (dirs ! j) (?ps ! i)) \<and>
     (\<forall>i' j'. i' < length ?ps \<and> j' < length dirs \<and> (i' < i \<or> (i' = i \<and> j' < j))
        \<longrightarrow> \<not> path_exists (join (dirs ! j') (?ps ! i')))"
  then have "probe_dirs path_exists (?ps ! i) dirs = Some (join (dirs ! j) (?ps ! i))"
    by (intro probe_dirs_first) auto
  moreover have "\<forall>i' < i. probe_dirs path_exists (?ps ! i') dirs = None"
    using a by (auto simp: probe_dirs_None in_set_conv_nth)
  ultimately have "probe_patterns path_exists ?ps dirs = Some (join (dirs ! j) (?ps ! i))"
    using a by (intro probe_patterns_first [of i]) auto
  then show "find_matching_thumbnail path_exists video_file dirs = Some (join (dirs ! j) (?ps ! i))"
    by (simp add: find_matching_thumbnail_def name_def)
qed

theorem find_matching_thumbnail_pattern_order_first_witness:
  "two_dirs_fs (join ([''A'', ''B''] ! 1) (patterns (fst (splitext (basename ''in/v.mp4''))) ! 0)) \<and>
   find_matching_thumbnail two_dirs_fs ''in/v.mp4'' [''A'', ''B''] = Some ''B/v_thumb.png'' \<and>
   find_matching_thumbnail two_dirs_fs ''in/v.mp4'' [''C''] = None"
  using find_matching_thumbnail_pattern_order_first
          [of 0 "''in/v.mp4''" 1 "[''A'', ''B'']" two_dirs_fs]
        find_matching_thumbnail_pattern_order_first
          [of 0 "''in/v.mp4''" 0 "[''C'']" two_dirs_fs]
  by (simp add: basename_def splitext_def rfind_def patterns_def join_def two_dirs_fs_def)

section \<open>The worker-pool size\<close>

text \<open>
  Claim C8: in both scripts the pool size is the CPU count when that is at most 4, and
  4 otherwise; it never exceeds 4.
\<close>

theorem MAX_WORKERS_is_min_cpu_count_4:
  "thumbnail_MAX_WORKERS cpu_count = (if cpu_count \<le> 4 then cpu_count else 4) \<and>
   watermark_MAX_WORKERS cpu_count = (if cpu_count \<le> 4 then cpu_count else 4) \<and>
   thumbnail_MAX_WORKERS cpu_count \<le> 4 \<and> watermark_MAX_WORKERS cpu_count \<le> 4"
  by (simp add: thumbnail_MAX_WORKERS_def watermark_MAX_WORKERS_def)

section \<open>Rules for runs\<close>

lemma wpD: "wp m (\<lambda>x s'. P (Inr x, s')) (\<lambda>e s'. P (Inl e, s')) s \<Longrightarrow> P (m s)"
  by (auto simp: wp_def split: prod.splits sum.splits)

lemma wp_ret: "Q x s \<Longrightarrow> wp (ret x) Q E s"
  by (simp add: wp_def ret_def)

lemma wp_seq: "wp m (\<lambda>x. wp (f x) Q E) E s \<Longrightarrow> wp (seq m f) Q E s"
  by (auto simp: wp_def seq_def split: prod.splits sum.splits)

lemma wp_try: "wp m Q (\<lambda>e. wp (h e) Q E) s \<Longrightarrow> wp (try_except m h) Q E s"
  by (auto simp: wp_def try_except_def split: prod.splits sum.splits)

lemma wp_if: "(b \<Longrightarrow> wp m Q E s) \<Longrightarrow> (\<not> b \<Longrightarrow> wp n Q E s) \<Longrightarrow> wp (if b then m else n) Q E s"
  by simp

lemma wp_lib:
  "(\<And>e. lib_raises w c = Some e \<Longrightarrow> E e s) \<Longrightarrow> (lib_raises w c = None \<Longrightarrow> Q () s)
   \<Longrightarrow> wp (lib w c) Q E s"
  by (auto simp: wp_def lib_def split: option.splits)

lemma wp_log: "Q () (logs_update (\<lambda>ls. ls @ [(l, m)]) s) \<Longrightarrow> wp (thread_safe_log m l) Q E s"
  by (cases s) (simp add: wp_def thread_safe_log_def)

lemma wp_fresh: "Q () (locals_update (\<lambda>_ _. None) s) \<Longrightarrow> wp fresh_locals Q E s"
  by (cases s) (simp add: wp_def fresh_locals_def)

lemma wp_assign: "Q () (locals_update (\<lambda>f. f(v \<mapsto> x)) s) \<Longrightarrow> wp (assign v x) Q E s"
  by (cases s) (simp add: wp_def assign_def)

lemma wp_modify:
  "Q () (locals_update (\<lambda>f. f(v := (case f v of Some (Clip c) \<Rightarrow> Some (Clip (g c)) | other \<Rightarrow> other))) s)
   \<Longrightarrow> wp (modify_clip v g) Q E s"
  by (cases s) (simp add: wp_def modify_clip_def)

lemma wp_close:
  "(\<And>e. lib_raises w (Close_call v) = Some e \<Longrightarrow> E e s) \<Longrightarrow>
   (lib_raises w (Close_call v) = None \<Longrightarrow> Q () (released_update (\<lambda>r. r @ [v]) s)) \<Longrightarrow>
   wp (close w v) Q E s"
  by (cases s) (auto simp: wp_def close_def seq_def lib_def split: option.splits)

lemma wp_VideoFileClip:
  "(\<And>e. lib_raises w (VideoFileClip_call input_path) = Some e \<Longrightarrow> E e s) \<Longrightarrow>
   (lib_raises w (VideoFileClip_call input_path) = None \<Longrightarrow>
      Q () (locals_update (\<lambda>f. f(Video \<mapsto>
          Clip \<lparr>clip_source = input_path, clip_duration = file_duration w input_path,
            clip_start = 0, clip_position = None, clip_size = Some (file_size w input_path),
            clip_fade = None\<rparr>)) s)) \<Longrightarrow>
   wp (VideoFileClip w input_path) Q E s"
  by (cases s) (auto simp: wp_def VideoFileClip_def seq_def lib_def assign_def split: option.splits)

lemma wp_ImageClip:
  "(\<And>e. lib_raises w (ImageClip_call path) = Some e \<Longrightarrow> E e s) \<Longrightarrow>
   (lib_raises w (ImageClip_call path) = None \<Longrightarrow>
      Q () (locals_update (\<lambda>f. f(v \<mapsto>
          Clip \<lparr>clip_source = path, clip_duration = duration, clip_start = 0,
            clip_position = None, clip_size = None, clip_fade = None\<rparr>)) s)) \<Longrightarrow>
   wp (ImageClip w v path duration) Q E s"
  by (cases s) (auto simp: wp_def ImageClip_def seq_def lib_def assign_def split: option.splits)

lemma wp_CompositeVideoClip:
  "(\<And>e. lib_raises w CompositeVideoClip_call = Some e \<Longrightarrow> E e s) \<Longrightarrow>
   (lib_raises w CompositeVideoClip_call = None \<Longrightarrow>
      Q () (locals_update (\<lambda>f. f(Final_video \<mapsto> Composite (clips_of s vs))) s)) \<Longrightarrow>
   wp (CompositeVideoClip w vs) Q E s"
  by (cases s) (auto simp: wp_def CompositeVideoClip_def seq_def lib_def assign_def split: option.splits)

lemma wp_write_videofile:
  "(\<And>e. lib_raises w (Write_videofile_call output_path) = Some e \<Longrightarrow> E e s) \<Longrightarrow>
   (lib_raises w (Write_videofile_call output_path) = None \<Longrightarrow>
      Q () (written_update (\<lambda>ws. ws @ [(output_path, layers s)]) s)) \<Longrightarrow>
   wp (write_videofile w output_path) Q E s"
  by (cases s) (auto simp: wp_def write_videofile_def seq_def lib_def split: option.splits)

lemmas wp_rules = wp_ret wp_seq wp_try wp_lib wp_log wp_fresh wp_assign wp_modify wp_if
   wp_close wp_VideoFileClip wp_ImageClip wp_CompositeVideoClip wp_write_videofile

lemma close_quietly_run:
  "close_quietly w v s =
     (Inr (), released_update (\<lambda>r. r @
        filter (\<lambda>v. locals s v \<noteq> None \<and> lib_raises w (Close_call v) = None) [v]) s)"
  by (cases s) (simp add: close_quietly_def when_bound_def try_except_def close_def seq_def lib_def ret_def
      split: option.splits)

lemma seq_log: "seq (thread_safe_log m l) f s = f () (logs_update (\<lambda>ls. ls @ [(l, m)]) s)"
  by (cases s) (simp add: seq_def thread_safe_log_def)

lemma seq_close_quietly:
  "seq (close_quietly w v) f s = f () (released_update (\<lambda>r. r @
        filter (\<lambda>v. locals s v \<noteq> None \<and> lib_raises w (Close_call v) = None) [v]) s)"
  by (simp add: seq_def close_quietly_run)

lemma add_watermark_except_run:
  "add_watermark_except w input_path e s =
     (Inr False, released_update (\<lambda>r. r @ wm_closes w s)
        (logs_update (\<lambda>ls. ls @ [(ERROR, Error_processing (basename input_path) e)]) s))"
  unfolding add_watermark_except_def seq_log seq_close_quietly ret_def wm_closes_def
  by (cases s) (simp del: filter.simps add: filter_append [symmetric])

lemma wp_add_watermark_except:
  "Q False (released_update (\<lambda>r. r @ wm_closes w s)
        (logs_update (\<lambda>ls. ls @ [(ERROR, Error_processing (basename input_path) e)]) s))
   \<Longrightarrow> wp (add_watermark_except w input_path e) Q E s"
  by (simp add: wp_def add_watermark_except_run)

lemmas watermark_prog_defs = add_watermark_to_video_def add_watermark_try_def watermark_compose_and_write_def
       place_last_watermark_def


lemma wp_when_bound:
  "(locals s v \<noteq> None \<Longrightarrow> wp m Q E s) \<Longrightarrow> (locals s v = None \<Longrightarrow> Q () s)
   \<Longrightarrow> wp (when_bound v m) Q E s"
  by (simp add: wp_def when_bound_def)

lemma wp_add_thumbnail_except:
  "Q False (released_update (\<lambda>r. r @ th_closes w s)
        (logs_update (\<lambda>ls. ls @ [(ERROR, Error_processing (basename input_path) e)]) s))
   \<Longrightarrow> wp (add_thumbnail_except w input_path e) Q E s"
  unfolding add_thumbnail_except_def
  apply (intro wp_rules wp_when_bound)
  apply (cases s; simp add: th_closes_def)+
  done

lemma add_thumbnail_except_run:
  "add_thumbnail_except w input_path e s =
     (Inr False, released_update (\<lambda>r. r @ th_closes w s)
        (logs_update (\<lambda>ls. ls @ [(ERROR, Error_processing (basename input_path) e)]) s))"
  by (rule wpD [where P = "\<lambda>r. r = X" for X]) (rule wp_add_thumbnail_except, simp)

section \<open>The overlay functions: results, layers, fades\<close>

lemmas thumbnail_prog_defs = add_thumbnail_to_video_def add_thumbnail_try_def
  thumbnail_compose_and_write_def apply_fade_def fade_with_def

lemma watermark_layers:
  "locals (snd (add_watermark_to_video w input_path output_path watermark_path_main
             watermark_path_last5 x_pos y_pos x_pos_last y_pos_last s)) Final_video = None \<or>
   layers (snd (add_watermark_to_video w input_path output_path watermark_path_main
             watermark_path_last5 x_pos y_pos x_pos_last y_pos_last s)) =
     [\<lparr>clip_source = input_path, clip_duration = file_duration w input_path,
        clip_start = 0, clip_position = None, clip_size = Some (file_size w input_path),
        clip_fade = None\<rparr>,
      \<lparr>clip_source = watermark_path_main, clip_duration = file_duration w input_path,
        clip_start = 0, clip_position = Some (x_pos, y_pos), clip_size = None, clip_fade = None\<rparr>,
      \<lparr>clip_source = (if fs_exists w watermark_path_last5 then watermark_path_last5 else watermark_path_main),
        clip_duration = (if file_duration w input_path \<le> 5 then file_duration w input_path else 5),
        clip_start = (if file_duration w input_path \<le> 5 then 0 else file_duration w input_path - 5),
        clip_position = Some (x_pos_last, y_pos_last), clip_size = None, clip_fade = None\<rparr>]"
  apply (rule wpD [where P = "\<lambda>r. locals (snd r) Final_video = None \<or> layers (snd r) = X" for X])
  unfolding watermark_prog_defs Let_def
  apply (intro wp_rules wp_add_watermark_except)
  apply (simp_all add: layers_def clips_of_def)
  done

lemma add_watermark_result:
  "fst (add_watermark_to_video w input_path output_path watermark_path_main
             watermark_path_last5 x_pos y_pos x_pos_last y_pos_last s) =
   Inr (fs_exists w watermark_path_main \<and>
        no_raise w (watermark_calls (file_duration w input_path) input_path output_path
          watermark_path_main
          (if fs_exists w watermark_path_last5 then watermark_path_last5 else watermark_path_main)))"
  apply (rule wpD [where P = "\<lambda>r. fst r = X" for X])
  unfolding watermark_prog_defs Let_def
  apply (intro wp_rules wp_add_watermark_except)
  apply (simp_all add: no_raise_def watermark_calls_def)
  done

lemma add_thumbnail_result:
  "fst (add_thumbnail_to_video w input_path output_path thumbnail_path duration fade_duration s) =
   Inr (fs_exists w thumbnail_path \<and>
        no_raise w (thumbnail_calls input_path output_path thumbnail_path))"
  apply (rule wpD [where P = "\<lambda>r. fst r = X" for X])
  unfolding thumbnail_prog_defs Let_def
  apply (intro wp_rules wp_add_thumbnail_except)
  apply (simp_all add: no_raise_def thumbnail_calls_def)
  done

lemma thumbnail_layers:
  "locals (snd (add_thumbnail_to_video w input_path output_path thumbnail_path duration
             fade_duration s)) Final_video = None \<or>
   layers (snd (add_thumbnail_to_video w input_path output_path thumbnail_path duration
             fade_duration s)) =
     [\<lparr>clip_source = input_path, clip_duration = file_duration w input_path,
        clip_start = 0, clip_position = None, clip_size = Some (file_size w input_path),
        clip_fade = None\<rparr>,
      \<lparr>clip_source = thumbnail_path, clip_duration = duration,
        clip_start = file_duration w input_path, clip_position = None,
        clip_size = Some (file_size w input_path),
        clip_fade = thumbnail_fade (snd (add_thumbnail_to_video w input_path output_path
           thumbnail_path duration fade_duration s))\<rparr>]"
  apply (rule wpD [where P = "\<lambda>r. locals (snd r) Final_video = None \<or>
      layers (snd r) = [V, \<lparr>clip_source = a, clip_duration = b, clip_start = c, clip_position = None,
        clip_size = d, clip_fade = thumbnail_fade (snd r)\<rparr>]" for V a b c d])
  unfolding thumbnail_prog_defs Let_def
  apply (intro wp_rules wp_add_thumbnail_except)
  apply (simp_all add: layers_def clips_of_def thumbnail_fade_def)
  done

lemma thumbnail_fade_only_if:
  "thumbnail_fade (snd (add_thumbnail_to_video w input_path output_path thumbnail_path duration
             fade_duration s)) = None \<or>
   (0 < fade_duration \<and> fade_duration < duration / 2 \<and> \<not> fade_unavailable w)"
  apply (rule wpD [where P = "\<lambda>r. thumbnail_fade (snd r) = None \<or> X" for X])
  unfolding thumbnail_prog_defs Let_def
  apply (intro wp_rules wp_add_thumbnail_except)
  apply (simp_all add: thumbnail_fade_def fade_unavailable_def selected_fade_def)
  done

lemma thumbnail_fade_warning:
  assumes "0 < fade_duration" "fade_duration < duration / 2" "fade_unavailable w"
    and "fs_exists w thumbnail_path"
    and "no_raise w [VideoFileClip_call input_path, ImageClip_call thumbnail_path,
           Method_call Thumbnail ''resized'']"
  shows "list_ex fade_warning (logs (snd (add_thumbnail_to_video w input_path output_path
           thumbnail_path duration fade_duration s)))"
  apply (insert assms)
  apply (rule wpD [where P = "\<lambda>r. list_ex fade_warning (logs (snd r))"])
  unfolding thumbnail_prog_defs Let_def
  apply (intro wp_rules wp_add_thumbnail_except)
  apply (simp_all add: no_raise_def fade_unavailable_def selected_fade_def fade_warning_def
          split: if_splits)
  done

lemma watermark_success_layers:
  "fst (add_watermark_to_video w input_path output_path watermark_path_main
             watermark_path_last5 x_pos y_pos x_pos_last y_pos_last s) = Inr True
   \<longrightarrow> locals (snd (add_watermark_to_video w input_path output_path watermark_path_main
             watermark_path_last5 x_pos y_pos x_pos_last y_pos_last s)) Final_video \<noteq> None \<and>
       written (snd (add_watermark_to_video w input_path output_path watermark_path_main
             watermark_path_last5 x_pos y_pos x_pos_last y_pos_last s)) =
       written s @ [(output_path, layers (snd (add_watermark_to_video w input_path output_path
          watermark_path_main watermark_path_last5 x_pos y_pos x_pos_last y_pos_last s)))] \<and>
       released (snd (add_watermark_to_video w input_path output_path watermark_path_main
             watermark_path_last5 x_pos y_pos x_pos_last y_pos_last s)) =
       released s @ [Video, Watermark_main, Watermark_last, Final_video]"
  apply (rule wpD [where P = "\<lambda>r. fst r = Inr True \<longrightarrow> locals (snd r) Final_video \<noteq> None \<and>
        written (snd r) = ws @ [(p, layers (snd r))] \<and> released (snd r) = rs @ vs" for ws p rs vs])
  unfolding watermark_prog_defs Let_def
  apply (intro wp_rules wp_add_watermark_except)
  apply (simp_all add: layers_def)
  done

lemma thumbnail_success_layers:
  "fst (add_thumbnail_to_video w input_path output_path thumbnail_path duration fade_duration s)
     = Inr True
   \<longrightarrow> locals (snd (add_thumbnail_to_video w input_path output_path thumbnail_path duration
             fade_duration s)) Final_video \<noteq> None \<and>
       written (snd (add_thumbnail_to_video w input_path output_path thumbnail_path duration
             fade_duration s)) =
       written s @ [(output_path, layers (snd (add_thumbnail_to_video w input_path output_path
          thumbnail_path duration fade_duration s)))] \<and>
       released (snd (add_thumbnail_to_video w input_path output_path thumbnail_path duration
             fade_duration s)) = released s @ [Video, Thumbnail, Final_video]"
  apply (rule wpD [where P = "\<lambda>r. fst r = Inr True \<longrightarrow> locals (snd r) Final_video \<noteq> None \<and>
        written (snd r) = ws @ [(p, layers (snd r))] \<and> released (snd r) = rs @ vs" for ws p rs vs])
  unfolding thumbnail_prog_defs Let_def
  apply (intro wp_rules wp_add_thumbnail_except)
  apply (simp_all add: layers_def)
  done

lemma watermark_missing_main:
  assumes "lib_raises w (VideoFileClip_call input_path) = None"
    and "\<not> fs_exists w watermark_path_main"
  shows "locals (snd (add_watermark_to_video w input_path output_path watermark_path_main
             watermark_path_last5 x_pos y_pos x_pos_last y_pos_last s)) Video \<noteq> None \<and>
         released (snd (add_watermark_to_video w input_path output_path watermark_path_main
             watermark_path_last5 x_pos y_pos x_pos_last y_pos_last s)) = released s"
  apply (insert assms)
  apply (rule wpD [where P = "\<lambda>r. locals (snd r) Video \<noteq> None \<and> released (snd r) = rs" for rs])
  unfolding add_watermark_to_video_def add_watermark_try_def
  apply (intro wp_rules wp_add_watermark_except)
  apply simp_all
  done

lemma thumbnail_missing_thumbnail:
  assumes "lib_raises w (VideoFileClip_call input_path) = None"
    and "\<not> fs_exists w thumbnail_path"
    and "lib_raises w (Close_call Video) = None"
  shows "released (snd (add_thumbnail_to_video w input_path output_path thumbnail_path duration
             fade_duration s)) = released s @ [Video]"
  apply (insert assms)
  apply (rule wpD [where P = "\<lambda>r. released (snd r) = rs" for rs])
  unfolding add_thumbnail_to_video_def add_thumbnail_try_def Let_def
  apply (intro wp_rules wp_add_thumbnail_except)
  apply simp_all
  done

lemma watermark_releases_what_is_bound:
  assumes "fs_exists w watermark_path_main" and "\<forall>v. lib_raises w (Close_call v) = None"
  shows "\<forall>v. locals (snd (add_watermark_to_video w input_path output_path watermark_path_main
             watermark_path_last5 x_pos y_pos x_pos_last y_pos_last s)) v \<noteq> None
          \<longrightarrow> v \<in> set (released (snd (add_watermark_to_video w input_path output_path
                 watermark_path_main watermark_path_last5 x_pos y_pos x_pos_last y_pos_last s)))"
  apply (insert assms)
  apply (rule wpD [where P = "\<lambda>r. \<forall>v. locals (snd r) v \<noteq> None \<longrightarrow> v \<in> set (released (snd r))"])
  unfolding watermark_prog_defs Let_def
  apply (intro wp_rules wp_add_watermark_except)
  apply (simp_all add: wm_closes_def)
  done

lemma watermark_warning_logged:
  assumes "lib_raises w (VideoFileClip_call input_path) = None"
    and "fs_exists w watermark_path_main" and "\<not> fs_exists w watermark_path_last5"
  shows "(WARNING, Last5_watermark_not_found watermark_path_last5)
           \<in> set (logs (snd (add_watermark_to_video w input_path output_path watermark_path_main
             watermark_path_last5 x_pos y_pos x_pos_last y_pos_last s)))"
  apply (insert assms)
  apply (rule wpD [where P = "\<lambda>r. lm \<in> set (logs (snd r))" for lm])
  unfolding watermark_prog_defs Let_def
  apply (intro wp_rules wp_add_watermark_except)
  apply simp_all
  done

lemma thumbnail_fade_applied:
  assumes "0 < fade_duration" "fade_duration < duration / 2" "selected_fade w = Some (a, b)"
    and "fs_exists w thumbnail_path"
    and "no_raise w [VideoFileClip_call input_path, ImageClip_call thumbnail_path,
           Method_call Thumbnail ''resized'', Method_call Thumbnail a, Method_call Thumbnail b]"
  shows "thumbnail_fade (snd (add_thumbnail_to_video w input_path output_path
           thumbnail_path duration fade_duration s)) = Some (a, fade_duration)"
  apply (insert assms)
  apply (rule wpD [where P = "\<lambda>r. thumbnail_fade (snd r) = X" for X])
  unfolding thumbnail_prog_defs Let_def
  apply (intro wp_rules wp_add_thumbnail_except)
  apply (simp_all add: no_raise_def selected_fade_def thumbnail_fade_def split: if_splits)
  done

lemma default_run_has_no_fade:
  "thumbnail_fade (snd (add_thumbnail_to_video w input_file output_file thumbnail_file
       THUMBNAIL_DURATION THUMBNAIL_FADE_DURATION s)) = None \<and>
   list_all (\<lambda>c. clip_fade c = None) (layers (snd (add_thumbnail_to_video w input_file
       output_file thumbnail_file THUMBNAIL_DURATION THUMBNAIL_FADE_DURATION s)))"
  apply (rule wpD [where P = "\<lambda>r. thumbnail_fade (snd r) = None \<and>
       list_all (\<lambda>c. clip_fade c = None) (layers (snd r))"])
  unfolding add_thumbnail_to_video_def add_thumbnail_try_def thumbnail_compose_and_write_def Let_def
  apply (intro wp_rules wp_add_thumbnail_except)
  apply (simp_all add: THUMBNAIL_DURATION_def THUMBNAIL_FADE_DURATION_def thumbnail_fade_def
       layers_def clips_of_def)
  done

lemma thumbnail_layers_built:
  assumes "locals (snd (add_thumbnail_to_video w input_path output_path thumbnail_path duration
             fade_duration s)) Final_video \<noteq> None"
  shows "layers (snd (add_thumbnail_to_video w input_path output_path thumbnail_path duration
             fade_duration s)) =
     [\<lparr>clip_source = input_path, clip_duration = file_duration w input_path,
        clip_start = 0, clip_position = None, clip_size = Some (file_size w input_path),
        clip_fade = None\<rparr>,
      \<lparr>clip_source = thumbnail_path, clip_duration = duration,
        clip_start = file_duration w input_path, clip_position = None,
        clip_size = Some (file_size w input_path),
        clip_fade = thumbnail_fade (snd (add_thumbnail_to_video w input_path output_path
           thumbnail_path duration fade_duration s))\<rparr>]"
  by (rule disjE [OF thumbnail_layers [of w input_path output_path thumbnail_path duration
        fade_duration s]], erule notE [OF assms, rotated], assumption)

lemma watermark_layers_built:
  assumes "locals (snd (add_watermark_to_video w input_path output_path watermark_path_main
             watermark_path_last5 x_pos y_pos x_pos_last y_pos_last s)) Final_video \<noteq> None"
  shows "layers (snd (add_watermark_to_video w input_path output_path watermark_path_main
             watermark_path_last5 x_pos y_pos x_pos_last y_pos_last s)) =
     [\<lparr>clip_source = input_path, clip_duration = file_duration w input_path,
        clip_start = 0, clip_position = None, clip_size = Some (file_size w input_path),
        clip_fade = None\<rparr>,
      \<lparr>clip_source = watermark_path_main, clip_duration = file_duration w input_path,
        clip_start = 0, clip_position = Some (x_pos, y_pos), clip_size = None, clip_fade = None\<rparr>,
      \<lparr>clip_source = (if fs_exists w watermark_path_last5 then watermark_path_last5 else watermark_path_main),
        clip_duration = (if file_duration w input_path \<le> 5 then file_duration w input_path else 5),
        clip_start = (if file_duration w input_path \<le> 5 then 0 else file_duration w input_path - 5),
        clip_position = Some (x_pos_last, y_pos_last), clip_size = None, clip_fade = None\<rparr>]"
  by (rule disjE [OF watermark_layers [of w input_path output_path watermark_path_main
        watermark_path_last5 x_pos y_pos x_pos_last y_pos_last s]], erule notE [OF assms, rotated],
      assumption)


lemma thumbnail_releases_what_is_bound:
  assumes "\<forall>v. lib_raises w (Close_call v) = None"
  shows "\<forall>v. locals (snd (add_thumbnail_to_video w input_path output_path thumbnail_path
             duration fade_duration s)) v \<noteq> None
          \<longrightarrow> v \<in> set (released (snd (add_thumbnail_to_video w input_path output_path
                 thumbnail_path duration fade_duration s)))"
  apply (insert assms)
  apply (rule wpD [where P = "\<lambda>r. \<forall>v. locals (snd r) v \<noteq> None \<longrightarrow> v \<in> set (released (snd r))"])
  unfolding thumbnail_prog_defs Let_def
  apply (intro wp_rules wp_add_thumbnail_except)
  apply (simp_all add: th_closes_def)
  done


section \<open>Release of the clips\<close>

text \<open>
  Claim C1 asks that every clip opened by a call is closed before the call returns, on
  every exit path. The branch of \<open>add_watermark_to_video\<close> for a missing main watermark
  (lines 63-65) returns False with the source clip open: whenever the video can be
  opened and the main watermark file does not exist, the call returns False, \<open>video\<close>
  is bound, and no \<open>close()\<close> has been called. (The same branch of
  \<open>add_thumbnail_to_video\<close> closes the video first, see \<open>thumbnail_missing_thumbnail\<close>;
  on the other paths of \<open>add_watermark_to_video\<close>, and on every path of
  \<open>add_thumbnail_to_video\<close>, every bound clip is closed as long as \<open>close()\<close> itself does
  not raise, see \<open>watermark_releases_what_is_bound\<close> and
  \<open>thumbnail_releases_what_is_bound\<close>.)
\<close>

theorem add_watermark_missing_main_leaves_video_open:
  assumes "lib_raises w (VideoFileClip_call input_path) = None"
    and "\<not> fs_exists w watermark_path_main"
  shows "fst (add_watermark_to_video w input_path output_path watermark_path_main
             watermark_path_last5 x_pos y_pos x_pos_last y_pos_last s) = Inr False \<and>
         locals (snd (add_watermark_to_video w input_path output_path watermark_path_main
             watermark_path_last5 x_pos y_pos x_pos_last y_pos_last s)) Video \<noteq> None \<and>
         released (snd (add_watermark_to_video w input_path output_path watermark_path_main
             watermark_path_last5 x_pos y_pos x_pos_last y_pos_last s)) = released s"
  using assms watermark_missing_main [OF assms] by (simp add: add_watermark_result)

theorem add_watermark_missing_main_leaves_video_open_witness:
  "lib_raises no_logo_world (VideoFileClip_call ''in/v.mp4'') = None \<and>
   \<not> fs_exists no_logo_world ''logo.png'' \<and>
   fst (add_watermark_to_video no_logo_world ''in/v.mp4'' ''out/v.mp4'' ''logo.png''
          ''subscribe.png'' 515 330 235 960 st0) = Inr False \<and>
   locals (snd (add_watermark_to_video no_logo_world ''in/v.mp4'' ''out/v.mp4'' ''logo.png''
          ''subscribe.png'' 515 330 235 960 st0)) Video \<noteq> None \<and>
   released (snd (add_watermark_to_video no_logo_world ''in/v.mp4'' ''out/v.mp4'' ''logo.png''
          ''subscribe.png'' 515 330 235 960 st0)) = []"
  using add_watermark_missing_main_leaves_video_open
          [of no_logo_world "''in/v.mp4''" "''logo.png''" "''out/v.mp4''" "''subscribe.png''"
              515 330 235 960 st0]
  by (simp add: no_logo_world_def quiet_world_def st0_def)


section \<open>Placement of the overlays in time\<close>

text \<open>
  Claim C3, as stated, fails for the thumbnail operation: a three-second thumbnail on a
  ten-second video starts at 10, the end of the source, and not at 10 - 3.
\<close>

theorem thumbnail_starts_at_source_end_counterexample:
  "fst (add_thumbnail_to_video quiet_world ''in/v.mp4'' ''out/v.mp4'' ''t/v.png'' 3 (1 / 2) st0)
     = Inr True \<and>
   file_duration quiet_world ''in/v.mp4'' = 10 \<and>
   map clip_duration (layers (snd (add_thumbnail_to_video quiet_world ''in/v.mp4'' ''out/v.mp4''
     ''t/v.png'' 3 (1 / 2) st0))) = [10, 3] \<and>
   map clip_start (layers (snd (add_thumbnail_to_video quiet_world ''in/v.mp4'' ''out/v.mp4''
     ''t/v.png'' 3 (1 / 2) st0))) = [0, 10] \<and>
   clip_start (layers (snd (add_thumbnail_to_video quiet_world ''in/v.mp4'' ''out/v.mp4''
     ''t/v.png'' 3 (1 / 2) st0)) ! 1) \<noteq> file_duration quiet_world ''in/v.mp4'' - 3"
proof -
  let ?r = "add_thumbnail_to_video quiet_world ''in/v.mp4'' ''out/v.mp4'' ''t/v.png'' 3 (1 / 2) st0"
  have ok: "fst ?r = Inr True"
    by (simp add: add_thumbnail_result no_raise_def thumbnail_calls_def quiet_world_def)
  then have "locals (snd ?r) Final_video \<noteq> None"
    using thumbnail_success_layers [of quiet_world "''in/v.mp4''" "''out/v.mp4''" "''t/v.png''" 3 "1 / 2" st0]
    by simp
  then have "layers (snd ?r) =
     [\<lparr>clip_source = ''in/v.mp4'', clip_duration = file_duration quiet_world ''in/v.mp4'',
        clip_start = 0, clip_position = None, clip_size = Some (file_size quiet_world ''in/v.mp4''),
        clip_fade = None\<rparr>,
      \<lparr>clip_source = ''t/v.png'', clip_duration = 3,
        clip_start = file_duration quiet_world ''in/v.mp4'', clip_position = None,
        clip_size = Some (file_size quiet_world ''in/v.mp4''),
        clip_fade = thumbnail_fade (snd ?r)\<rparr>]"
    by (rule thumbnail_layers_built)
  with ok show ?thesis by (simp add: quiet_world_def)
qed

lemma quiet_watermark_succeeds:
  "fst (add_watermark_to_video quiet_world ''in/v.mp4'' ''out/v.mp4'' ''logo.png''
          ''subscribe.png'' 515 330 235 960 st0) = Inr True"
  by (simp add: add_watermark_result no_raise_def watermark_calls_def quiet_world_def)

lemma quiet_thumbnail_succeeds:
  "fst (add_thumbnail_to_video quiet_world ''in/v.mp4'' ''out/v.mp4'' ''t/v.png'' 3 (1 / 2) st0)
     = Inr True"
  by (simp add: add_thumbnail_result no_raise_def thumbnail_calls_def quiet_world_def)


text \<open>
  Claim C3, amended. In the watermark operation, for a source longer than five seconds
  whose composite is built, the second overlay lasts 5 seconds and starts at the
  source's duration minus 5, so that it ends with the source. In the thumbnail
  operation the overlay starts at the source's duration, for every source and every
  overlay duration: it is shown after the source's last frame.
\<close>

theorem overlay_start_times:
  "(5 < file_duration w input_path \<and>
    locals (snd (add_watermark_to_video w input_path output_path watermark_path_main
       watermark_path_last5 x_pos y_pos x_pos_last y_pos_last s)) Final_video \<noteq> None
    \<longrightarrow> length (layers (snd (add_watermark_to_video w input_path output_path watermark_path_main
           watermark_path_last5 x_pos y_pos x_pos_last y_pos_last s))) = 3 \<and>
        clip_duration (layers (snd (add_watermark_to_video w input_path output_path
           watermark_path_main watermark_path_last5 x_pos y_pos x_pos_last y_pos_last s)) ! 2) = 5 \<and>
        clip_start (layers (snd (add_watermark_to_video w input_path output_path
           watermark_path_main watermark_path_last5 x_pos y_pos x_pos_last y_pos_last s)) ! 2)
          = file_duration w input_path - 5 \<and>
        clip_start (layers (snd (add_watermark_to_video w input_path output_path
           watermark_path_main watermark_path_last5 x_pos y_pos x_pos_last y_pos_last s)) ! 2) +
        clip_duration (layers (snd (add_watermark_to_video w input_path output_path
           watermark_path_main watermark_path_last5 x_pos y_pos x_pos_last y_pos_last s)) ! 2)
          = file_duration w input_path) \<and>
   (locals (snd (add_thumbnail_to_video w input_path output_path thumbnail_path duration
       fade_duration s)) Final_video \<noteq> None
    \<longrightarrow> length (layers (snd (add_thumbnail_to_video w input_path output_path thumbnail_path
           duration fade_duration s))) = 2 \<and>
        clip_duration (layers (snd (add_thumbnail_to_video w input_path output_path
           thumbnail_path duration fade_duration s)) ! 1) = duration \<and>
        clip_start (layers (snd (add_thumbnail_to_video w input_path output_path
           thumbnail_path duration fade_duration s)) ! 1) = file_duration w input_path)"
proof (intro conjI impI)
  assume a: "5 < file_duration w input_path \<and>
    locals (snd (add_watermark_to_video w input_path output_path watermark_path_main
       watermark_path_last5 x_pos y_pos x_pos_last y_pos_last s)) Final_video \<noteq> None"
  then have built: "locals (snd (add_watermark_to_video w input_path output_path
       watermark_path_main watermark_path_last5 x_pos y_pos x_pos_last y_pos_last s)) Final_video
       \<noteq> None" and long: "\<not> file_duration w input_path \<le> 5"
    by auto
  note l = watermark_layers_built [OF built]
  show "length (layers (snd (add_watermark_to_video w input_path output_path watermark_path_main
           watermark_path_last5 x_pos y_pos x_pos_last y_pos_last s))) = 3"
    by (simp add: l)
  show "clip_duration (layers (snd (add_watermark_to_video w input_path output_path
           watermark_path_main watermark_path_last5 x_pos y_pos x_pos_last y_pos_last s)) ! 2) = 5"
    using long by (simp add: l)
  show "clip_start (layers (snd (add_watermark_to_video w input_path output_path
           watermark_path_main watermark_path_last5 x_pos y_pos x_pos_last y_pos_last s)) ! 2)
          = file_duration w input_path - 5"
    using long by (simp add: l)
  show "clip_start (layers (snd (add_watermark_to_video w input_path output_path
           watermark_path_main watermark_path_last5 x_pos y_pos x_pos_last y_pos_last s)) ! 2) +
        clip_duration (layers (snd (add_watermark_to_video w input_path output_path
           watermark_path_main watermark_path_last5 x_pos y_pos x_pos_last y_pos_last s)) ! 2)
          = file_duration w input_path"
    using long by (simp add: l)
next
  assume built: "locals (snd (add_thumbnail_to_video w input_path output_path thumbnail_path
       duration fade_duration s)) Final_video \<noteq> None"
  note l = thumbnail_layers_built [OF built]
  show "length (layers (snd (add_thumbnail_to_video w input_path output_path thumbnail_path
           duration fade_duration s))) = 2"
    by (subst l) simp
  show "clip_duration (layers (snd (add_thumbnail_to_video w input_path output_path
           thumbnail_path duration fade_duration s)) ! 1) = duration"
    by (subst l) simp
  show "clip_start (layers (snd (add_thumbnail_to_video w input_path output_path
           thumbnail_path duration fade_duration s)) ! 1) = file_duration w input_path"
    by (subst l) simp
qed


theorem overlay_start_times_witness:
  "5 < file_duration quiet_world ''in/v.mp4'' \<and>
   fst (add_watermark_to_video quiet_world ''in/v.mp4'' ''out/v.mp4'' ''logo.png''
          ''subscribe.png'' 515 330 235 960 st0) = Inr True \<and>
   clip_start (layers (snd (add_watermark_to_video quiet_world ''in/v.mp4'' ''out/v.mp4''
          ''logo.png'' ''subscribe.png'' 515 330 235 960 st0)) ! 2) = 5 \<and>
   clip_duration (layers (snd (add_watermark_to_video quiet_world ''in/v.mp4'' ''out/v.mp4''
          ''logo.png'' ''subscribe.png'' 515 330 235 960 st0)) ! 2) = 5 \<and>
   fst (add_thumbnail_to_video quiet_world ''in/v.mp4'' ''out/v.mp4'' ''t/v.png'' 3 (1 / 2) st0)
     = Inr True \<and>
   clip_start (layers (snd (add_thumbnail_to_video quiet_world ''in/v.mp4'' ''out/v.mp4''
          ''t/v.png'' 3 (1 / 2) st0)) ! 1) = 10"
proof -
  have w: "locals (snd (add_watermark_to_video quiet_world ''in/v.mp4'' ''out/v.mp4'' ''logo.png''
          ''subscribe.png'' 515 330 235 960 st0)) Final_video \<noteq> None"
    using watermark_success_layers [of quiet_world "''in/v.mp4''" "''out/v.mp4''" "''logo.png''"
              "''subscribe.png''" 515 330 235 960 st0] quiet_watermark_succeeds
    by simp
  have t: "locals (snd (add_thumbnail_to_video quiet_world ''in/v.mp4'' ''out/v.mp4''
          ''t/v.png'' 3 (1 / 2) st0)) Final_video \<noteq> None"
    using thumbnail_success_layers [of quiet_world "''in/v.mp4''" "''out/v.mp4''" "''t/v.png''"
              3 "1 / 2" st0] quiet_thumbnail_succeeds
    by simp
  have d: "file_duration quiet_world ''in/v.mp4'' = 10"
    by (simp add: quiet_world_def)
  show ?thesis
    using overlay_start_times [of quiet_world "''in/v.mp4''" "''out/v.mp4''" "''logo.png''"
              "''subscribe.png''" 515 330 235 960 st0 "''t/v.png''" 3 "1 / 2"]
          w t quiet_watermark_succeeds quiet_thumbnail_succeeds
    by (simp add: d)
qed

lemma short_watermark_succeeds:
  "fst (add_watermark_to_video short_world ''in/v.mp4'' ''out/v.mp4'' ''logo.png''
          ''subscribe.png'' 515 330 235 960 st0) = Inr True"
  by (simp add: add_watermark_result no_raise_def watermark_calls_def short_world_def
        quiet_world_def)


text \<open>
  Claim C4: when the source lasts at most five seconds and the composite is built, the
  watermark operation takes the full-length branch: both overlays last as long as the
  source and start at 0, like the source itself; no layer has a start offset. The call
  then returns True exactly when none of the listed library calls raises:
  \<open>set_start\<close>, the call of the trailing-window branch, is not among them.
\<close>

theorem short_video_full_length_placement:
  assumes "file_duration w input_path \<le> 5"
    and "locals (snd (add_watermark_to_video w input_path output_path watermark_path_main
       watermark_path_last5 x_pos y_pos x_pos_last y_pos_last s)) Final_video \<noteq> None"
  shows "layers (snd (add_watermark_to_video w input_path output_path watermark_path_main
             watermark_path_last5 x_pos y_pos x_pos_last y_pos_last s)) =
     [\<lparr>clip_source = input_path, clip_duration = file_duration w input_path,
        clip_start = 0, clip_position = None, clip_size = Some (file_size w input_path),
        clip_fade = None\<rparr>,
      \<lparr>clip_source = watermark_path_main, clip_duration = file_duration w input_path,
        clip_start = 0, clip_position = Some (x_pos, y_pos), clip_size = None, clip_fade = None\<rparr>,
      \<lparr>clip_source = (if fs_exists w watermark_path_last5 then watermark_path_last5
                        else watermark_path_main),
        clip_duration = file_duration w input_path, clip_start = 0,
        clip_position = Some (x_pos_last, y_pos_last), clip_size = None, clip_fade = None\<rparr>] \<and>
    list_all (\<lambda>c. clip_start c = 0 \<and> clip_duration c = file_duration w input_path)
      (layers (snd (add_watermark_to_video w input_path output_path watermark_path_main
             watermark_path_last5 x_pos y_pos x_pos_last y_pos_last s))) \<and>
    fst (add_watermark_to_video w input_path output_path watermark_path_main
             watermark_path_last5 x_pos y_pos x_pos_last y_pos_last s) =
      Inr (no_raise w
        [VideoFileClip_call input_path, ImageClip_call watermark_path_main,
         Method_call Watermark_main ''set_position'',
         ImageClip_call (if fs_exists w watermark_path_last5 then watermark_path_last5
                         else watermark_path_main),
         Method_call Watermark_last ''set_position'',
         CompositeVideoClip_call, Write_videofile_call output_path,
         Close_call Video, Close_call Watermark_main, Close_call Watermark_last,
         Close_call Final_video])"
proof -
  have m: "fs_exists w watermark_path_main"
  proof (rule ccontr)
    assume n: "\<not> fs_exists w watermark_path_main"
    have "locals (snd (add_watermark_to_video w input_path output_path watermark_path_main
       watermark_path_last5 x_pos y_pos x_pos_last y_pos_last s)) Final_video = None"
      apply (insert n)
      apply (rule wpD [where P = "\<lambda>r. locals (snd r) Final_video = None"])
      unfolding add_watermark_to_video_def add_watermark_try_def
      apply (intro wp_rules wp_add_watermark_except)
      apply simp_all
      done
    with assms(2) show False by contradiction
  qed
  show ?thesis
    using assms(1) m
    by (simp add: watermark_layers_built [OF assms(2)] add_watermark_result watermark_calls_def)
qed

theorem short_video_full_length_placement_witness:
  "file_duration short_world ''in/v.mp4'' = 3 \<and>
   fst (add_watermark_to_video short_world ''in/v.mp4'' ''out/v.mp4'' ''logo.png''
          ''subscribe.png'' 515 330 235 960 st0) = Inr True \<and>
   map clip_start (layers (snd (add_watermark_to_video short_world ''in/v.mp4'' ''out/v.mp4''
          ''logo.png'' ''subscribe.png'' 515 330 235 960 st0))) = [0, 0, 0] \<and>
   map clip_duration (layers (snd (add_watermark_to_video short_world ''in/v.mp4'' ''out/v.mp4''
          ''logo.png'' ''subscribe.png'' 515 330 235 960 st0))) = [3, 3, 3]"
proof -
  have d: "file_duration short_world ''in/v.mp4'' = 3"
    by (simp add: short_world_def quiet_world_def)
  have b: "locals (snd (add_watermark_to_video short_world ''in/v.mp4'' ''out/v.mp4'' ''logo.png''
          ''subscribe.png'' 515 330 235 960 st0)) Final_video \<noteq> None"
    using watermark_success_layers [of short_world "''in/v.mp4''" "''out/v.mp4''" "''logo.png''"
              "''subscribe.png''" 515 330 235 960 st0] short_watermark_succeeds
    by simp
  have le: "file_duration short_world ''in/v.mp4'' \<le> 5"
    by (simp add: d)
  show ?thesis
    using short_video_full_length_placement [OF le b] short_watermark_succeeds
    by (simp add: d)
qed


section \<open>The fade of the thumbnail\<close>

text \<open>
  Claim C5: the thumbnail carries a fade only when the fade duration is positive and
  strictly less than half the overlay's duration. Whether the call returns True does
  not depend on the fade at all: it returns True exactly when the thumbnail file exists
  and none of the other library calls raises. And when the condition for fading holds
  but fading is unavailable (none of the three methods is found, or a fade call
  raises), a warning is logged and the thumbnail stays without fade.
\<close>

theorem fade_only_below_half_and_never_fatal:
  "(thumbnail_fade (snd (add_thumbnail_to_video w input_path output_path thumbnail_path
        duration fade_duration s)) \<noteq> None
      \<longrightarrow> 0 < fade_duration \<and> fade_duration < duration / 2) \<and>
   fst (add_thumbnail_to_video w input_path output_path thumbnail_path duration fade_duration s)
     = Inr (fs_exists w thumbnail_path \<and>
            no_raise w (thumbnail_calls input_path output_path thumbnail_path)) \<and>
   (0 < fade_duration \<and> fade_duration < duration / 2 \<and> fade_unavailable w \<and>
    fs_exists w thumbnail_path \<and>
    no_raise w [VideoFileClip_call input_path, ImageClip_call thumbnail_path,
                Method_call Thumbnail ''resized'']
      \<longrightarrow> list_ex fade_warning (logs (snd (add_thumbnail_to_video w input_path output_path
              thumbnail_path duration fade_duration s))) \<and>
          thumbnail_fade (snd (add_thumbnail_to_video w input_path output_path thumbnail_path
              duration fade_duration s)) = None)"
  using thumbnail_fade_only_if [of w input_path output_path thumbnail_path duration fade_duration s]
        thumbnail_fade_warning [of fade_duration duration w thumbnail_path input_path output_path s]
  by (auto simp: add_thumbnail_result)

theorem fade_only_below_half_and_never_fatal_witness:
  "fade_unavailable no_fade_world \<and>
   fst (add_thumbnail_to_video no_fade_world ''in/v.mp4'' ''out/v.mp4'' ''t/v.png'' 3 (1 / 2) st0)
     = Inr True \<and>
   list_ex fade_warning (logs (snd (add_thumbnail_to_video no_fade_world ''in/v.mp4''
     ''out/v.mp4'' ''t/v.png'' 3 (1 / 2) st0))) \<and>
   thumbnail_fade (snd (add_thumbnail_to_video no_fade_world ''in/v.mp4''
     ''out/v.mp4'' ''t/v.png'' 3 (1 / 2) st0)) = None \<and>
   thumbnail_fade (snd (add_thumbnail_to_video quiet_world ''in/v.mp4''
     ''out/v.mp4'' ''t/v.png'' 3 (1 / 2) st0)) = Some (''fadein'', 1 / 2) \<and>
   (0::rat) < 1 / 2 \<and> (1 / 2 :: rat) < 3 / 2"
proof -
  have f: "thumbnail_fade (snd (add_thumbnail_to_video quiet_world ''in/v.mp4''
     ''out/v.mp4'' ''t/v.png'' 3 (1 / 2) st0)) = Some (''fadein'', 1 / 2)"
    by (rule thumbnail_fade_applied [where b = "''fadeout''"])
       (simp_all add: selected_fade_def no_raise_def quiet_world_def)
  show ?thesis
    using fade_only_below_half_and_never_fatal
            [of no_fade_world "''in/v.mp4''" "''out/v.mp4''" "''t/v.png''" 3 "1 / 2" st0]
          fade_only_below_half_and_never_fatal
            [of quiet_world "''in/v.mp4''" "''out/v.mp4''" "''t/v.png''" 3 "1 / 2" st0]
          f
    by (simp add: fade_unavailable_def selected_fade_def no_raise_def thumbnail_calls_def
          no_fade_world_def quiet_world_def)
qed

section \<open>The fallback for a missing second watermark\<close>

text \<open>
  Claim C9: when the main watermark file exists and the last-5-seconds one does not
  (and the video can be opened), the watermark operation logs a warning and goes on
  with the main path in both roles: it returns True exactly when none of its library
  calls raises, the second image being opened from the main path, and both overlays
  of the composite are read from the main watermark file.
\<close>

theorem missing_last5_watermark_falls_back_to_main:
  assumes "fs_exists w watermark_path_main" and "\<not> fs_exists w watermark_path_last5"
    and "lib_raises w (VideoFileClip_call input_path) = None"
  shows "(WARNING, Last5_watermark_not_found watermark_path_last5)
           \<in> set (logs (snd (add_watermark_to_video w input_path output_path watermark_path_main
                 watermark_path_last5 x_pos y_pos x_pos_last y_pos_last s))) \<and>
         fst (add_watermark_to_video w input_path output_path watermark_path_main
                 watermark_path_last5 x_pos y_pos x_pos_last y_pos_last s) =
           Inr (no_raise w (watermark_calls (file_duration w input_path) input_path output_path
                  watermark_path_main watermark_path_main)) \<and>
         (locals (snd (add_watermark_to_video w input_path output_path watermark_path_main
                 watermark_path_last5 x_pos y_pos x_pos_last y_pos_last s)) Final_video \<noteq> None
          \<longrightarrow> map clip_source (layers (snd (add_watermark_to_video w input_path output_path
                 watermark_path_main watermark_path_last5 x_pos y_pos x_pos_last y_pos_last s)))
              = [input_path, watermark_path_main, watermark_path_main])"
proof (intro conjI impI)
  show "(WARNING, Last5_watermark_not_found watermark_path_last5)
           \<in> set (logs (snd (add_watermark_to_video w input_path output_path watermark_path_main
                 watermark_path_last5 x_pos y_pos x_pos_last y_pos_last s)))"
    by (rule watermark_warning_logged [OF assms(3) assms(1) assms(2)])
  show "fst (add_watermark_to_video w input_path output_path watermark_path_main
                 watermark_path_last5 x_pos y_pos x_pos_last y_pos_last s) =
           Inr (no_raise w (watermark_calls (file_duration w input_path) input_path output_path
                  watermark_path_main watermark_path_main))"
    using assms(1) assms(2) by (simp add: add_watermark_result)
  assume built: "locals (snd (add_watermark_to_video w input_path output_path watermark_path_main
                 watermark_path_last5 x_pos y_pos x_pos_last y_pos_last s)) Final_video \<noteq> None"
  show "map clip_source (layers (snd (add_watermark_to_video w input_path output_path
                 watermark_path_main watermark_path_last5 x_pos y_pos x_pos_last y_pos_last s)))
              = [input_path, watermark_path_main, watermark_path_main]"
    using assms(2) by (simp add: watermark_layers_built [OF built])
qed


theorem missing_last5_watermark_falls_back_to_main_witness:
  "fs_exists no_subscribe_world ''logo.png'' \<and> \<not> fs_exists no_subscribe_world ''subscribe.png'' \<and>
   fst (add_watermark_to_video no_subscribe_world ''in/v.mp4'' ''out/v.mp4'' ''logo.png''
          ''subscribe.png'' 515 330 235 960 st0) = Inr True \<and>
   (WARNING, Last5_watermark_not_found ''subscribe.png'')
      \<in> set (logs (snd (add_watermark_to_video no_subscribe_world ''in/v.mp4'' ''out/v.mp4''
          ''logo.png'' ''subscribe.png'' 515 330 235 960 st0))) \<and>
   map clip_source (layers (snd (add_watermark_to_video no_subscribe_world ''in/v.mp4''
          ''out/v.mp4'' ''logo.png'' ''subscribe.png'' 515 330 235 960 st0)))
      = [''in/v.mp4'', ''logo.png'', ''logo.png'']"
proof -
  have ok: "fst (add_watermark_to_video no_subscribe_world ''in/v.mp4'' ''out/v.mp4'' ''logo.png''
          ''subscribe.png'' 515 330 235 960 st0) = Inr True"
    by (simp add: add_watermark_result no_raise_def watermark_calls_def no_subscribe_world_def
          quiet_world_def)
  have b: "locals (snd (add_watermark_to_video no_subscribe_world ''in/v.mp4'' ''out/v.mp4''
          ''logo.png'' ''subscribe.png'' 515 330 235 960 st0)) Final_video \<noteq> None"
    using watermark_success_layers [of no_subscribe_world "''in/v.mp4''" "''out/v.mp4''"
              "''logo.png''" "''subscribe.png''" 515 330 235 960 st0] ok
    by simp
  have h: "fs_exists no_subscribe_world ''logo.png''"
          "\<not> fs_exists no_subscribe_world ''subscribe.png''"
          "lib_raises no_subscribe_world (VideoFileClip_call ''in/v.mp4'') = None"
    by (simp_all add: no_subscribe_world_def quiet_world_def)
  show ?thesis
    using missing_last5_watermark_falls_back_to_main [OF h, of "''out/v.mp4''" 515 330 235 960 st0]
          ok b h
    by simp
qed


section \<open>The default thumbnail settings\<close>

lemmas thumbnail_task_defs = thumbnail_process_single_video_threaded_def
  thumbnail_process_single_video_def add_thumbnail_to_video_def add_thumbnail_try_def
  thumbnail_compose_and_write_def


text \<open>
  Claim C10: with \<open>THUMBNAIL_DURATION = 0.1\<close> and \<open>THUMBNAIL_FADE_DURATION = 0.1\<close> the
  condition of the fade branch is false, and a run of the batch task function or of the
  single-video function leaves no trace of a fade: none on the thumbnail clip, none on
  a layer of the composite or of a written file, and no fade warning in the log. (The
  double nearest to 0.1 is positive and halving it is exact, so the comparison has the
  same value on the floats of the source.)
\<close>

theorem default_configuration_never_fades:
  "\<not> (0 < THUMBNAIL_FADE_DURATION \<and> THUMBNAIL_FADE_DURATION < THUMBNAIL_DURATION / 2) \<and>
   unfaded (snd (thumbnail_process_single_video_threaded w
      (input_file, output_file, thumbnail_file, progress_info) st0)) \<and>
   unfaded (snd (thumbnail_process_single_video w input_file thumbnail_file output_file' st0))"
proof (intro conjI)
  show "\<not> (0 < THUMBNAIL_FADE_DURATION \<and> THUMBNAIL_FADE_DURATION < THUMBNAIL_DURATION / 2)"
    by (simp add: THUMBNAIL_DURATION_def THUMBNAIL_FADE_DURATION_def)
  show "unfaded (snd (thumbnail_process_single_video_threaded w
      (input_file, output_file, thumbnail_file, progress_info) st0))"
    apply (rule wpD [where P = "\<lambda>r. unfaded (snd r)"])
    unfolding thumbnail_task_defs Let_def prod.case
    apply (intro wp_rules wp_add_thumbnail_except)
    apply (simp_all add: THUMBNAIL_DURATION_def THUMBNAIL_FADE_DURATION_def unfaded_def
       thumbnail_fade_def layers_def clips_of_def fade_warning_def st0_def)
    done
  show "unfaded (snd (thumbnail_process_single_video w input_file thumbnail_file output_file' st0))"
    apply (rule wpD [where P = "\<lambda>r. unfaded (snd r)"])
    unfolding thumbnail_task_defs Let_def
    apply (intro wp_rules wp_add_thumbnail_except)
    apply (simp_all add: THUMBNAIL_DURATION_def THUMBNAIL_FADE_DURATION_def unfaded_def
       thumbnail_fade_def layers_def clips_of_def fade_warning_def st0_def)
    done
qed

section \<open>The pool: one result for every task\<close>

lemma record_result_success_count:
  "success_count (record_result t f) = success_count t + (if succeeded f then 1 else 0)"
  by (cases "(t, f)" rule: record_result.cases) auto

lemma record_result_failed_files:
  "failed_files (record_result t f) = failed_files t @ (if succeeded f then [] else [failed_name f])"
  by (cases "(t, f)" rule: record_result.cases) auto

lemma collect_success_count:
  "success_count (collect fs t) = success_count t + length (filter succeeded fs)"
  by (induction fs arbitrary: t) (simp_all add: record_result_success_count)

lemma collect_failed_files:
  "failed_files (collect fs t) =
     failed_files t @ map failed_name (filter (\<lambda>f. \<not> succeeded f) fs)"
  by (induction fs arbitrary: t) (simp_all add: record_result_failed_files)

lemma record_result_pool_logs:
  "set (pool_logs t) \<subseteq> set (pool_logs (record_result t f))"
  by (cases "(t, f)" rule: record_result.cases) auto

lemma collect_pool_logs_mono: "set (pool_logs t) \<subseteq> set (pool_logs (collect fs t))"
proof (induction fs arbitrary: t)
  case Nil
  then show ?case by simp
next
  case (Cons f fs)
  have "set (pool_logs t) \<subseteq> set (pool_logs (record_result t f))"
    by (rule record_result_pool_logs)
  also have "\<dots> \<subseteq> set (pool_logs (collect fs (record_result t f)))"
    by (rule Cons.IH)
  finally show ?case by simp
qed

lemma collect_logs_raised:
  "(task_input, Raised exc) \<in> set fs \<Longrightarrow>
   (ERROR, Video_generated_exception (basename task_input) exc) \<in> set (pool_logs (collect fs t))"
proof (induction fs arbitrary: t)
  case Nil
  then show ?case by simp
next
  case (Cons f fs)
  show ?case
  proof (cases "f = (task_input, Raised exc)")
    case True
    then have "(ERROR, Video_generated_exception (basename task_input) exc)
                 \<in> set (pool_logs (record_result t f))"
      by simp
    then show ?thesis
      using collect_pool_logs_mono [of "record_result t f" fs] by auto
  next
    case False
    with Cons.prems have "(task_input, Raised exc) \<in> set fs" by simp
    then show ?thesis by (simp add: Cons.IH)
  qed
qed

lemma completion_order_length: "completion_order n order \<Longrightarrow> length order = n"
  unfolding completion_order_def using distinct_card [of order] by simp

lemma completion_order_mset:
  assumes "completion_order (length futures) order"
  shows "mset (as_completed futures order) = mset futures"
proof -
  from assms have d: "distinct order" and s: "set order = set [0..<length futures]"
    unfolding completion_order_def by auto
  have "mset order = mset [0..<length futures]"
    using set_eq_iff_mset_eq_distinct [OF d distinct_upt] s by blast
  then have "mset (map (\<lambda>i. futures ! i) order) = mset (map (\<lambda>i. futures ! i) [0..<length futures])"
    by (metis mset_map)
  then show ?thesis by (simp add: map_nth as_completed_def)
qed

lemma filter_length_mset: "mset xs = mset ys \<Longrightarrow> length (filter P xs) = length (filter P ys)"
  by (metis mset_filter size_mset)

lemma pool_success_count:
  assumes "completion_order (length futures) order"
  shows "success_count (process_directory_pool futures order) = length (filter succeeded futures)"
  using filter_length_mset [OF completion_order_mset [OF assms], of succeeded]
  by (simp add: process_directory_pool_def as_completed_def collect_success_count tally0_def)

lemma pool_failed_count:
  assumes "completion_order (length futures) order"
  shows "length (failed_files (process_directory_pool futures order))
           = length (filter (\<lambda>f. \<not> succeeded f) futures)"
  using filter_length_mset [OF completion_order_mset [OF assms], of "\<lambda>f. \<not> succeeded f"]
  by (simp add: process_directory_pool_def as_completed_def collect_failed_files tally0_def)

lemma pool_failed_set:
  assumes "completion_order (length futures) order"
  shows "set (failed_files (process_directory_pool futures order))
           = failed_name ` {f \<in> set futures. \<not> succeeded f}"
proof -
  have "set (as_completed futures order) = set futures"
    using completion_order_mset [OF assms] by (metis set_mset_mset)
  then show ?thesis
    by (simp add: process_directory_pool_def as_completed_def collect_failed_files tally0_def)
qed

lemma pool_counts_add_up:
  assumes "completion_order (length futures) order"
  shows "success_count (process_directory_pool futures order) +
         length (failed_files (process_directory_pool futures order)) = length futures"
  using sum_length_filter_compl [of succeeded futures]
  by (simp add: pool_success_count [OF assms] pool_failed_count [OF assms])

section \<open>The task functions never raise\<close>

lemmas watermark_task_defs = watermark_process_single_video_threaded_def watermark_prog_defs

lemma thumbnail_task_result:
  "fst (thumbnail_process_single_video_threaded w
          (input_file, output_file, thumbnail_file, progress_info) s) =
   Inr (fs_exists w input_file \<and> fs_exists w thumbnail_file \<and>
        no_raise w (thumbnail_calls input_file output_file thumbnail_file), input_file)"
  apply (rule wpD [where P = "\<lambda>r. fst r = X" for X])
  unfolding thumbnail_task_defs Let_def prod.case apply_fade_def fade_with_def
  apply (intro wp_rules wp_add_thumbnail_except)
  apply (simp_all add: no_raise_def thumbnail_calls_def)
  done

lemma watermark_task_result:
  "fst (watermark_process_single_video_threaded w (input_file, output_file, progress_info) s) =
   Inr (fs_exists w input_file \<and> fs_exists w WATERMARK_PATH \<and>
        no_raise w (watermark_calls (file_duration w input_file) input_file output_file
          WATERMARK_PATH
          (if fs_exists w WATERMARK_PATH_LAST_5SEC then WATERMARK_PATH_LAST_5SEC
           else WATERMARK_PATH)), input_file)"
  apply (rule wpD [where P = "\<lambda>r. fst r = X" for X])
  unfolding watermark_task_defs Let_def prod.case
  apply (intro wp_rules wp_add_watermark_except)
  apply (simp_all add: no_raise_def watermark_calls_def)
  done

lemma watermark_task_write_failure:
  assumes "lib_raises w (Write_videofile_call output_file) = Some e"
    and "\<forall>c. c \<noteq> Write_videofile_call output_file \<longrightarrow> lib_raises w c = None"
    and "fs_exists w input_file" and "fs_exists w WATERMARK_PATH"
  shows "(ERROR, Error_processing (basename input_file) e)
           \<in> set (logs (snd (watermark_process_single_video_threaded w
                (input_file, output_file, progress_info) s)))"
  apply (insert assms)
  apply (rule wpD [where P = "\<lambda>r. lm \<in> set (logs (snd r))" for lm])
  unfolding watermark_task_defs Let_def prod.case
  apply (intro wp_rules wp_add_watermark_except)
  apply simp_all
  done

lemma submit_lengths:
  "length (thumbnail_submit w thumbnail_tasks) = length thumbnail_tasks"
  "length (watermark_submit w watermark_tasks) = length watermark_tasks"
  by (simp_all add: thumbnail_submit_def watermark_submit_def)

lemma thumbnail_submit_eq:
  "thumbnail_submit w video_tasks =
     map (\<lambda>task. (fst task, Returned (thumbnail_task_ok w task) (fst task))) video_tasks"
  unfolding thumbnail_submit_def
proof (rule map_cong [OF refl])
  fix task :: "string \<times> string \<times> string \<times> string"
  obtain i o' t p where task: "task = (i, o', t, p)"
    by (cases task) auto
  show "(fst task, outcome_of (thumbnail_process_single_video_threaded w task st0)) =
        (fst task, Returned (thumbnail_task_ok w task) (fst task))"
    by (simp add: task outcome_of_def thumbnail_task_result thumbnail_task_ok_def)
qed

lemma watermark_submit_eq:
  "watermark_submit w video_tasks =
     map (\<lambda>task. (fst task, Returned (watermark_task_ok w task) (fst task))) video_tasks"
  unfolding watermark_submit_def
proof (rule map_cong [OF refl])
  fix task :: "string \<times> string \<times> string"
  obtain i o' p where task: "task = (i, o', p)"
    by (cases task) auto
  show "(fst task, outcome_of (watermark_process_single_video_threaded w task st0)) =
        (fst task, Returned (watermark_task_ok w task) (fst task))"
    by (simp add: task outcome_of_def watermark_task_result watermark_task_ok_def)
qed

lemma record_result_returned_logs:
  "pool_logs (record_result t (task_input, Returned success input_file)) = pool_logs t"
  by simp

lemma collect_returned_logs:
  "pool_logs (collect (map (\<lambda>x. (name x, Returned (ok x) (name x))) xs) t) = pool_logs t"
  by (induction xs arbitrary: t) simp_all

lemma pool_of_returned:
  fixes name :: "'a \<Rightarrow> string" and ok :: "'a \<Rightarrow> bool"
  assumes co: "completion_order (length tasks) order"
  defines "futures \<equiv> map (\<lambda>x. (name x, Returned (ok x) (name x))) tasks"
  shows "success_count (process_directory_pool futures order) = length (filter ok tasks)"
    and "failed_files (process_directory_pool futures order) =
           map (\<lambda>i. basename (name (tasks ! i))) (filter (\<lambda>i. \<not> ok (tasks ! i)) order)"
    and "pool_logs (process_directory_pool futures order) = []"
proof -
  have len: "length futures = length tasks"
    by (simp add: futures_def)
  have co': "completion_order (length futures) order"
    using co by (simp add: len)
  have idx: "\<forall>i \<in> set order. i < length tasks"
    using co by (simp add: completion_order_def)
  have ac: "as_completed futures order
              = map (\<lambda>x. (name x, Returned (ok x) (name x))) (map (\<lambda>i. tasks ! i) order)"
    using idx by (simp add: as_completed_def futures_def)
  have "success_count (process_directory_pool futures order) = length (filter succeeded futures)"
    by (rule pool_success_count [OF co'])
  also have "\<dots> = length (filter ok tasks)"
    by (simp add: futures_def filter_map comp_def)
  finally show "success_count (process_directory_pool futures order) = length (filter ok tasks)" .
  show "failed_files (process_directory_pool futures order) =
           map (\<lambda>i. basename (name (tasks ! i))) (filter (\<lambda>i. \<not> ok (tasks ! i)) order)"
    by (simp add: process_directory_pool_def ac collect_failed_files tally0_def filter_map comp_def)
  show "pool_logs (process_directory_pool futures order) = []"
    unfolding process_directory_pool_def ac collect_returned_logs
    by (simp add: tally0_def)
qed

lemma thumbnail_task_error_detail:
  "(fs_exists w input_file \<and> fs_exists w thumbnail_file \<and>
    first_raise w (thumbnail_calls input_file output_file thumbnail_file) = Some e
     \<longrightarrow> (ERROR, Error_processing (basename input_file) e)
           \<in> set (logs (snd (thumbnail_process_single_video_threaded w
                 (input_file, output_file, thumbnail_file, progress_info) s)))) \<and>
   (fs_exists w input_file \<and> \<not> fs_exists w thumbnail_file \<and>
    lib_raises w (VideoFileClip_call input_file) = None
     \<longrightarrow> (ERROR, Thumbnail_file_not_found thumbnail_file)
           \<in> set (logs (snd (thumbnail_process_single_video_threaded w
                 (input_file, output_file, thumbnail_file, progress_info) s)))) \<and>
   (\<not> fs_exists w input_file
     \<longrightarrow> (ERROR, Input_file_not_found input_file)
           \<in> set (logs (snd (thumbnail_process_single_video_threaded w
                 (input_file, output_file, thumbnail_file, progress_info) s)))) \<and>
   (fs_exists w input_file \<and> \<not> thumbnail_task_ok w (input_file, output_file, thumbnail_file, progress_info)
     \<longrightarrow> (ERROR, Failed (basename input_file))
           \<in> set (logs (snd (thumbnail_process_single_video_threaded w
                 (input_file, output_file, thumbnail_file, progress_info) s))))"
  apply (rule wpD [where P = "\<lambda>r. (A \<longrightarrow> m1 \<in> set (logs (snd r))) \<and> (B \<longrightarrow> m2 \<in> set (logs (snd r)))
       \<and> (C \<longrightarrow> m3 \<in> set (logs (snd r))) \<and> (D \<longrightarrow> m4 \<in> set (logs (snd r)))" for A B C D m1 m2 m3 m4])
  unfolding thumbnail_task_defs Let_def prod.case apply_fade_def fade_with_def
  apply (intro wp_rules wp_add_thumbnail_except)
  apply (simp_all add: first_raise_def thumbnail_calls_def thumbnail_task_ok_def no_raise_def)
  done

lemma watermark_task_error_detail:
  "(fs_exists w input_file \<and> fs_exists w WATERMARK_PATH \<and>
    first_raise w (watermark_calls (file_duration w input_file) input_file output_file
       WATERMARK_PATH
       (if fs_exists w WATERMARK_PATH_LAST_5SEC then WATERMARK_PATH_LAST_5SEC
        else WATERMARK_PATH)) = Some e
     \<longrightarrow> (ERROR, Error_processing (basename input_file) e)
           \<in> set (logs (snd (watermark_process_single_video_threaded w
                 (input_file, output_file, progress_info) s)))) \<and>
   (fs_exists w input_file \<and> \<not> fs_exists w WATERMARK_PATH \<and>
    lib_raises w (VideoFileClip_call input_file) = None
     \<longrightarrow> (ERROR, Main_watermark_not_found WATERMARK_PATH)
           \<in> set (logs (snd (watermark_process_single_video_threaded w
                 (input_file, output_file, progress_info) s)))) \<and>
   (\<not> fs_exists w input_file
     \<longrightarrow> (ERROR, Input_file_not_found input_file)
           \<in> set (logs (snd (watermark_process_single_video_threaded w
                 (input_file, output_file, progress_info) s)))) \<and>
   (fs_exists w input_file \<and> \<not> watermark_task_ok w (input_file, output_file, progress_info)
     \<longrightarrow> (ERROR, Failed (basename input_file))
           \<in> set (logs (snd (watermark_process_single_video_threaded w
                 (input_file, output_file, progress_info) s))))"
  apply (rule wpD [where P = "\<lambda>r. (A \<longrightarrow> m1 \<in> set (logs (snd r))) \<and> (B \<longrightarrow> m2 \<in> set (logs (snd r)))
       \<and> (C \<longrightarrow> m3 \<in> set (logs (snd r))) \<and> (D \<longrightarrow> m4 \<in> set (logs (snd r)))" for A B C D m1 m2 m3 m4])
  unfolding watermark_task_defs Let_def prod.case
  apply (intro wp_rules wp_add_watermark_except)
  apply (simp_all add: first_raise_def watermark_calls_def watermark_task_ok_def no_raise_def)
  done

section \<open>Isolation of a failing task\<close>

lemma b_fails_facts:
  "fs_exists b_fails_world p"
  "lib_raises b_fails_world (Write_videofile_call ''out/b.mp4'') = Some ''encoder failed''"
  "file_duration b_fails_world p = 10"
  by (simp_all add: b_fails_world_def quiet_world_def)

lemma b_fails_watermark_tasks:
  "watermark_task_ok b_fails_world (''in/a.mp4'', ''out/a.mp4'', ''1/2'')"
  "\<not> watermark_task_ok b_fails_world (''in/b.mp4'', ''out/b.mp4'', ''2/2'')"
  "first_raise b_fails_world
     (watermark_calls (file_duration b_fails_world ''in/b.mp4'') ''in/b.mp4'' ''out/b.mp4''
        WATERMARK_PATH
        (if fs_exists b_fails_world WATERMARK_PATH_LAST_5SEC then WATERMARK_PATH_LAST_5SEC
         else WATERMARK_PATH)) = Some ''encoder failed''"
  by (simp_all add: watermark_task_ok_def no_raise_def watermark_calls_def first_raise_def
        b_fails_world_def quiet_world_def)


text \<open>
  Claim C6. At the task boundary: the task function of either script never raises; it
  returns its own input path with a flag that is True exactly when the files it checks
  exist and no library call on the way raises (the fade calls apart, whose exceptions
  are caught on the spot). A failure is logged with its detail: the text of the first
  library call that raised, the missing thumbnail or watermark file, or the missing
  input file. The futures that \<open>process_directory\<close> submits hold exactly these
  results, so that for every order in which they complete the loop counts the tasks that
  returned True, lists the name of every other task in \<open>failed_files\<close>, in completion
  order, and never takes the branch for a raised exception. And should a future raise
  all the same, the loop puts the name of that future's own task into \<open>failed_files\<close>
  and the text of the exception into the log, while every other future is counted as
  if nothing had happened.
\<close>

theorem task_failures_are_isolated:
  "fst (thumbnail_process_single_video_threaded w
          (input_file, output_file, thumbnail_file, progress_info) s) =
     Inr (thumbnail_task_ok w (input_file, output_file, thumbnail_file, progress_info),
          input_file) \<and>
   fst (watermark_process_single_video_threaded w (input_file, output_file, progress_info) s) =
     Inr (watermark_task_ok w (input_file, output_file, progress_info), input_file) \<and>
   (fs_exists w input_file \<and> fs_exists w thumbnail_file \<and>
    first_raise w (thumbnail_calls input_file output_file thumbnail_file) = Some e_thumbnail
     \<longrightarrow> (ERROR, Error_processing (basename input_file) e_thumbnail)
           \<in> set (logs (snd (thumbnail_process_single_video_threaded w
                 (input_file, output_file, thumbnail_file, progress_info) s)))) \<and>
   (fs_exists w input_file \<and> \<not> fs_exists w thumbnail_file \<and>
    lib_raises w (VideoFileClip_call input_file) = None
     \<longrightarrow> (ERROR, Thumbnail_file_not_found thumbnail_file)
           \<in> set (logs (snd (thumbnail_process_single_video_threaded w
                 (input_file, output_file, thumbnail_file, progress_info) s)))) \<and>
   (fs_exists w input_file \<and> fs_exists w WATERMARK_PATH \<and>
    first_raise w (watermark_calls (file_duration w input_file) input_file output_file
       WATERMARK_PATH
       (if fs_exists w WATERMARK_PATH_LAST_5SEC then WATERMARK_PATH_LAST_5SEC
        else WATERMARK_PATH)) = Some e_watermark
     \<longrightarrow> (ERROR, Error_processing (basename input_file) e_watermark)
           \<in> set (logs (snd (watermark_process_single_video_threaded w
                 (input_file, output_file, progress_info) s)))) \<and>
   (fs_exists w input_file \<and> \<not> fs_exists w WATERMARK_PATH \<and>
    lib_raises w (VideoFileClip_call input_file) = None
     \<longrightarrow> (ERROR, Main_watermark_not_found WATERMARK_PATH)
           \<in> set (logs (snd (watermark_process_single_video_threaded w
                 (input_file, output_file, progress_info) s)))) \<and>
   (\<not> fs_exists w input_file
     \<longrightarrow> (ERROR, Input_file_not_found input_file)
           \<in> set (logs (snd (thumbnail_process_single_video_threaded w
                 (input_file, output_file, thumbnail_file, progress_info) s))) \<and>
         (ERROR, Input_file_not_found input_file)
           \<in> set (logs (snd (watermark_process_single_video_threaded w
                 (input_file, output_file, progress_info) s)))) \<and>
   (k < length thumbnail_tasks
     \<longrightarrow> thumbnail_submit w thumbnail_tasks ! k =
           (fst (thumbnail_tasks ! k),
            Returned (thumbnail_task_ok w (thumbnail_tasks ! k)) (fst (thumbnail_tasks ! k)))) \<and>
   (k < length watermark_tasks
     \<longrightarrow> watermark_submit w watermark_tasks ! k =
           (fst (watermark_tasks ! k),
            Returned (watermark_task_ok w (watermark_tasks ! k)) (fst (watermark_tasks ! k)))) \<and>
   (completion_order (length (thumbnail_submit w thumbnail_tasks)) order
     \<longrightarrow> success_count (process_directory_pool (thumbnail_submit w thumbnail_tasks) order)
           = length (filter (thumbnail_task_ok w) thumbnail_tasks) \<and>
         failed_files (process_directory_pool (thumbnail_submit w thumbnail_tasks) order)
           = map (\<lambda>i. basename (fst (thumbnail_tasks ! i)))
               (filter (\<lambda>i. \<not> thumbnail_task_ok w (thumbnail_tasks ! i)) order) \<and>
         pool_logs (process_directory_pool (thumbnail_submit w thumbnail_tasks) order) = []) \<and>
   (completion_order (length (watermark_submit w watermark_tasks)) order
     \<longrightarrow> success_count (process_directory_pool (watermark_submit w watermark_tasks) order)
           = length (filter (watermark_task_ok w) watermark_tasks) \<and>
         failed_files (process_directory_pool (watermark_submit w watermark_tasks) order)
           = map (\<lambda>i. basename (fst (watermark_tasks ! i)))
               (filter (\<lambda>i. \<not> watermark_task_ok w (watermark_tasks ! i)) order) \<and>
         pool_logs (process_directory_pool (watermark_submit w watermark_tasks) order) = []) \<and>
   (completion_order (length futures) order \<and> j < length futures \<and>
    futures ! j = (task_input, Raised exc)
      \<longrightarrow> basename task_input \<in> set (failed_files (process_directory_pool futures order)) \<and>
          (ERROR, Video_generated_exception (basename task_input) exc)
             \<in> set (pool_logs (process_directory_pool futures order)) \<and>
          success_count (process_directory_pool futures order)
             = length (filter succeeded futures) \<and>
          set (failed_files (process_directory_pool futures order))
             = failed_name ` {f \<in> set futures. \<not> succeeded f} \<and>
          success_count (process_directory_pool futures order) +
          length (failed_files (process_directory_pool futures order)) = length futures)"
proof -
  have a1: "fst (thumbnail_process_single_video_threaded w
          (input_file, output_file, thumbnail_file, progress_info) s) =
     Inr (thumbnail_task_ok w (input_file, output_file, thumbnail_file, progress_info),
          input_file)"
    by (simp add: thumbnail_task_result thumbnail_task_ok_def)
  have a2: "fst (watermark_process_single_video_threaded w (input_file, output_file, progress_info) s) =
     Inr (watermark_task_ok w (input_file, output_file, progress_info), input_file)"
    by (simp add: watermark_task_result watermark_task_ok_def)
  note a3 = thumbnail_task_error_detail [of w input_file thumbnail_file output_file e_thumbnail
               progress_info s]
  note a4 = watermark_task_error_detail [of w input_file output_file e_watermark progress_info s]
  have b1: "k < length thumbnail_tasks
     \<longrightarrow> thumbnail_submit w thumbnail_tasks ! k =
           (fst (thumbnail_tasks ! k),
            Returned (thumbnail_task_ok w (thumbnail_tasks ! k)) (fst (thumbnail_tasks ! k)))"
    by (simp add: thumbnail_submit_eq)
  have b2: "k < length watermark_tasks
     \<longrightarrow> watermark_submit w watermark_tasks ! k =
           (fst (watermark_tasks ! k),
            Returned (watermark_task_ok w (watermark_tasks ! k)) (fst (watermark_tasks ! k)))"
    by (simp add: watermark_submit_eq)
  have c1: "completion_order (length (thumbnail_submit w thumbnail_tasks)) order
     \<longrightarrow> success_count (process_directory_pool (thumbnail_submit w thumbnail_tasks) order)
           = length (filter (thumbnail_task_ok w) thumbnail_tasks) \<and>
         failed_files (process_directory_pool (thumbnail_submit w thumbnail_tasks) order)
           = map (\<lambda>i. basename (fst (thumbnail_tasks ! i)))
               (filter (\<lambda>i. \<not> thumbnail_task_ok w (thumbnail_tasks ! i)) order) \<and>
         pool_logs (process_directory_pool (thumbnail_submit w thumbnail_tasks) order) = []"
  proof
    assume "completion_order (length (thumbnail_submit w thumbnail_tasks)) order"
    then have co: "completion_order (length thumbnail_tasks) order"
      by (simp add: submit_lengths)
    show "success_count (process_directory_pool (thumbnail_submit w thumbnail_tasks) order)
           = length (filter (thumbnail_task_ok w) thumbnail_tasks) \<and>
         failed_files (process_directory_pool (thumbnail_submit w thumbnail_tasks) order)
           = map (\<lambda>i. basename (fst (thumbnail_tasks ! i)))
               (filter (\<lambda>i. \<not> thumbnail_task_ok w (thumbnail_tasks ! i)) order) \<and>
         pool_logs (process_directory_pool (thumbnail_submit w thumbnail_tasks) order) = []"
      unfolding thumbnail_submit_eq
      using pool_of_returned [OF co, of fst "thumbnail_task_ok w"] by simp
  qed
  have c2: "completion_order (length (watermark_submit w watermark_tasks)) order
     \<longrightarrow> success_count (process_directory_pool (watermark_submit w watermark_tasks) order)
           = length (filter (watermark_task_ok w) watermark_tasks) \<and>
         failed_files (process_directory_pool (watermark_submit w watermark_tasks) order)
           = map (\<lambda>i. basename (fst (watermark_tasks ! i)))
               (filter (\<lambda>i. \<not> watermark_task_ok w (watermark_tasks ! i)) order) \<and>
         pool_logs (process_directory_pool (watermark_submit w watermark_tasks) order) = []"
  proof
    assume "completion_order (length (watermark_submit w watermark_tasks)) order"
    then have co: "completion_order (length watermark_tasks) order"
      by (simp add: submit_lengths)
    show "success_count (process_directory_pool (watermark_submit w watermark_tasks) order)
           = length (filter (watermark_task_ok w) watermark_tasks) \<and>
         failed_files (process_directory_pool (watermark_submit w watermark_tasks) order)
           = map (\<lambda>i. basename (fst (watermark_tasks ! i)))
               (filter (\<lambda>i. \<not> watermark_task_ok w (watermark_tasks ! i)) order) \<and>
         pool_logs (process_directory_pool (watermark_submit w watermark_tasks) order) = []"
      unfolding watermark_submit_eq
      using pool_of_returned [OF co, of fst "watermark_task_ok w"] by simp
  qed
  have d: "completion_order (length futures) order \<and> j < length futures \<and>
    futures ! j = (task_input, Raised exc)
      \<longrightarrow> basename task_input \<in> set (failed_files (process_directory_pool futures order)) \<and>
          (ERROR, Video_generated_exception (basename task_input) exc)
             \<in> set (pool_logs (process_directory_pool futures order)) \<and>
          success_count (process_directory_pool futures order)
             = length (filter succeeded futures) \<and>
          set (failed_files (process_directory_pool futures order))
             = failed_name ` {f \<in> set futures. \<not> succeeded f} \<and>
          success_count (process_directory_pool futures order) +
          length (failed_files (process_directory_pool futures order)) = length futures"
  proof (intro impI conjI)
    assume a: "completion_order (length futures) order \<and> j < length futures \<and>
      futures ! j = (task_input, Raised exc)"
    then have co: "completion_order (length futures) order" by simp
    from a have mem: "(task_input, Raised exc) \<in> set futures"
      by (metis nth_mem)
    have perm: "set (as_completed futures order) = set futures"
      using completion_order_mset [OF co] by (metis set_mset_mset)
    show "set (failed_files (process_directory_pool futures order))
               = failed_name ` {f \<in> set futures. \<not> succeeded f}"
      by (rule pool_failed_set [OF co])
    then show "basename task_input \<in> set (failed_files (process_directory_pool futures order))"
      using mem by force
    show "(ERROR, Video_generated_exception (basename task_input) exc)
               \<in> set (pool_logs (process_directory_pool futures order))"
      unfolding process_directory_pool_def
      by (rule collect_logs_raised) (simp only: perm mem)
    show "success_count (process_directory_pool futures order) = length (filter succeeded futures)"
      by (rule pool_success_count [OF co])
    show "success_count (process_directory_pool futures order) +
            length (failed_files (process_directory_pool futures order)) = length futures"
      by (rule pool_counts_add_up [OF co])
  qed
  show ?thesis
    using a1 a2 a3 a4 b1 b2 c1 c2 d by blast
qed

theorem task_failures_are_isolated_witness:
  "fst (watermark_process_single_video_threaded b_fails_world
          (''in/b.mp4'', ''out/b.mp4'', ''2/2'') st0) = Inr (False, ''in/b.mp4'') \<and>
   (ERROR, Error_processing ''b.mp4'' ''encoder failed'')
      \<in> set (logs (snd (watermark_process_single_video_threaded b_fails_world
          (''in/b.mp4'', ''out/b.mp4'', ''2/2'') st0))) \<and>
   watermark_submit b_fails_world two_watermark_tasks ! 1
      = (''in/b.mp4'', Returned False ''in/b.mp4'') \<and>
   completion_order (length (watermark_submit b_fails_world two_watermark_tasks)) [1, 0] \<and>
   success_count (process_directory_pool
      (watermark_submit b_fails_world two_watermark_tasks) [1, 0]) = 1 \<and>
   failed_files (process_directory_pool
      (watermark_submit b_fails_world two_watermark_tasks) [1, 0]) = [''b.mp4''] \<and>
   completion_order (length three_futures) [2, 0, 1] \<and>
   three_futures ! 1 = (''in/y.mp4'', Raised ''boom'') \<and>
   ''y.mp4'' \<in> set (failed_files (process_directory_pool three_futures [2, 0, 1])) \<and>
   (ERROR, Video_generated_exception ''y.mp4'' ''boom'')
      \<in> set (pool_logs (process_directory_pool three_futures [2, 0, 1])) \<and>
   success_count (process_directory_pool three_futures [2, 0, 1]) = 1"
proof -
  note t = task_failures_are_isolated
     [where w = b_fails_world and input_file = "''in/b.mp4''" and output_file = "''out/b.mp4''"
        and thumbnail_file = "''t/b.png''" and progress_info = "''2/2''" and s = st0
        and e_thumbnail = "''encoder failed''" and e_watermark = "''encoder failed''"
        and k = 1 and thumbnail_tasks = two_thumbnail_tasks
        and watermark_tasks = two_watermark_tasks and order = "[1, 0]"
        and futures = "[]" and j = 0 and task_input = "''in/y.mp4''" and exc = "''boom''"]
  note u = task_failures_are_isolated
     [where w = b_fails_world and input_file = "''in/b.mp4''" and output_file = "''out/b.mp4''"
        and thumbnail_file = "''t/b.png''" and progress_info = "''2/2''" and s = st0
        and e_thumbnail = "''encoder failed''" and e_watermark = "''encoder failed''"
        and k = 1 and thumbnail_tasks = "[]"
        and watermark_tasks = "[]" and order = "[2, 0, 1]"
        and futures = three_futures and j = 1 and task_input = "''in/y.mp4''" and exc = "''boom''"]
  have bn: "basename ''in/b.mp4'' = ''b.mp4''" "basename ''in/y.mp4'' = ''y.mp4''"
    by (simp_all add: basename_def rfind_def)
  have tb: "two_watermark_tasks ! 1 = (''in/b.mp4'', ''out/b.mp4'', ''2/2'')"
           "two_watermark_tasks ! 0 = (''in/a.mp4'', ''out/a.mp4'', ''1/2'')"
           "length two_watermark_tasks = 2"
           "two_watermark_tasks ! Suc 0 = (''in/b.mp4'', ''out/b.mp4'', ''2/2'')"
    by (simp_all add: two_watermark_tasks_def)
  have co: "completion_order (length (watermark_submit b_fails_world two_watermark_tasks)) [1, 0]"
    by (auto simp: submit_lengths tb completion_order_def)
  have r1: "fst (watermark_process_single_video_threaded b_fails_world
          (''in/b.mp4'', ''out/b.mp4'', ''2/2'') st0) = Inr (False, ''in/b.mp4'')"
    using t b_fails_watermark_tasks(2) by simp
  have r2: "(ERROR, Error_processing (basename ''in/b.mp4'') ''encoder failed'')
      \<in> set (logs (snd (watermark_process_single_video_threaded b_fails_world
          (''in/b.mp4'', ''out/b.mp4'', ''2/2'') st0)))"
    using t b_fails_facts(1) b_fails_watermark_tasks(3) by blast
  have "1 < length two_watermark_tasks"
    by (simp add: tb)
  then have "watermark_submit b_fails_world two_watermark_tasks ! 1 =
           (fst (two_watermark_tasks ! 1),
            Returned (watermark_task_ok b_fails_world (two_watermark_tasks ! 1))
              (fst (two_watermark_tasks ! 1)))"
    using t by blast
  then have r3: "watermark_submit b_fails_world two_watermark_tasks ! 1
      = (''in/b.mp4'', Returned False ''in/b.mp4'')"
    using b_fails_watermark_tasks(2) by (simp add: tb)
  have pool: "success_count (process_directory_pool
         (watermark_submit b_fails_world two_watermark_tasks) [1, 0])
           = length (filter (watermark_task_ok b_fails_world) two_watermark_tasks) \<and>
         failed_files (process_directory_pool
         (watermark_submit b_fails_world two_watermark_tasks) [1, 0])
           = map (\<lambda>i. basename (fst (two_watermark_tasks ! i)))
               (filter (\<lambda>i. \<not> watermark_task_ok b_fails_world (two_watermark_tasks ! i)) [1, 0])"
    using t co by blast
  have f: "filter (watermark_task_ok b_fails_world) two_watermark_tasks
             = [(''in/a.mp4'', ''out/a.mp4'', ''1/2'')]"
    using b_fails_watermark_tasks(1,2) by (simp add: two_watermark_tasks_def)
  have r4: "success_count (process_directory_pool
      (watermark_submit b_fails_world two_watermark_tasks) [1, 0]) = 1"
    using pool by (simp add: f)
  have r5: "failed_files (process_directory_pool
      (watermark_submit b_fails_world two_watermark_tasks) [1, 0]) = [''b.mp4'']"
    using pool b_fails_watermark_tasks(1,2) by (simp add: tb bn)
  have co3: "completion_order (length three_futures) [2, 0, 1]"
    by (auto simp: completion_order_def three_futures_def)
  have k3: "three_futures ! 1 = (''in/y.mp4'', Raised ''boom'')" "1 < length three_futures"
    by (simp_all add: three_futures_def)
  have p1: "basename ''in/y.mp4'' \<in> set (failed_files (process_directory_pool three_futures [2, 0, 1]))"
    using u co3 k3 by blast
  have p2: "(ERROR, Video_generated_exception (basename ''in/y.mp4'') ''boom'')
      \<in> set (pool_logs (process_directory_pool three_futures [2, 0, 1]))"
    using u co3 k3 by blast
  have "success_count (process_directory_pool three_futures [2, 0, 1])
      = length (filter succeeded three_futures)"
    using u co3 k3 by blast
  then have p3: "success_count (process_directory_pool three_futures [2, 0, 1]) = 1"
    by (simp add: three_futures_def)
  show ?thesis
    using r1 r2 r3 co r4 r5 co3 k3(1) p1 p2 p3 unfolding bn by blast
qed


text \<open>
  Claim C7: each script submits one future for every task; whatever the order in which
  the futures complete, the loop handles each future once, so as many results as there
  were tasks submitted, and \<open>success_count + len(failed_files)\<close> is that number.
\<close>

theorem pool_counts_match_submitted_tasks:
  "length (thumbnail_submit w thumbnail_tasks) = length thumbnail_tasks \<and>
   length (watermark_submit w watermark_tasks) = length watermark_tasks \<and>
   (completion_order (length (thumbnail_submit w thumbnail_tasks)) order
      \<longrightarrow> length (as_completed (thumbnail_submit w thumbnail_tasks) order) = length thumbnail_tasks \<and>
          mset (as_completed (thumbnail_submit w thumbnail_tasks) order)
            = mset (thumbnail_submit w thumbnail_tasks) \<and>
          success_count (process_directory_pool (thumbnail_submit w thumbnail_tasks) order) +
          length (failed_files (process_directory_pool (thumbnail_submit w thumbnail_tasks) order))
            = length thumbnail_tasks) \<and>
   (completion_order (length (watermark_submit w watermark_tasks)) order
      \<longrightarrow> length (as_completed (watermark_submit w watermark_tasks) order) = length watermark_tasks \<and>
          mset (as_completed (watermark_submit w watermark_tasks) order)
            = mset (watermark_submit w watermark_tasks) \<and>
          success_count (process_directory_pool (watermark_submit w watermark_tasks) order) +
          length (failed_files (process_directory_pool (watermark_submit w watermark_tasks) order))
            = length watermark_tasks) \<and>
   (completion_order (length futures) order
      \<longrightarrow> length (as_completed futures order) = length futures \<and>
          mset (as_completed futures order) = mset futures \<and>
          success_count (process_directory_pool futures order) +
          length (failed_files (process_directory_pool futures order)) = length futures)"
proof -
  have g: "completion_order (length fs) order
      \<longrightarrow> length (as_completed fs order) = length fs \<and>
          mset (as_completed fs order) = mset fs \<and>
          success_count (process_directory_pool fs order) +
          length (failed_files (process_directory_pool fs order)) = length fs"
    for fs :: "(string \<times> outcome) list"
  proof
    assume co: "completion_order (length fs) order"
    have "length (as_completed fs order) = length order"
      by (simp add: as_completed_def)
    then have "length (as_completed fs order) = length fs"
      using completion_order_length [OF co] by simp
    then show "length (as_completed fs order) = length fs \<and>
          mset (as_completed fs order) = mset fs \<and>
          success_count (process_directory_pool fs order) +
          length (failed_files (process_directory_pool fs order)) = length fs"
      using completion_order_mset [OF co] pool_counts_add_up [OF co] by simp
  qed
  show ?thesis
    using g [of "thumbnail_submit w thumbnail_tasks"] g [of "watermark_submit w watermark_tasks"]
          g [of futures]
    by (simp add: submit_lengths)
qed

theorem pool_counts_match_submitted_tasks_witness:
  "length (thumbnail_submit b_fails_world two_thumbnail_tasks) = 2 \<and>
   completion_order (length (thumbnail_submit b_fails_world two_thumbnail_tasks)) [1, 0] \<and>
   length (as_completed (thumbnail_submit b_fails_world two_thumbnail_tasks) [1, 0]) = 2 \<and>
   success_count (process_directory_pool
       (thumbnail_submit b_fails_world two_thumbnail_tasks) [1, 0]) +
   length (failed_files (process_directory_pool
       (thumbnail_submit b_fails_world two_thumbnail_tasks) [1, 0])) = 2 \<and>
   completion_order (length three_futures) [2, 0, 1] \<and>
   success_count (process_directory_pool three_futures [2, 0, 1]) +
   length (failed_files (process_directory_pool three_futures [2, 0, 1])) = 3"
proof -
  note t = pool_counts_match_submitted_tasks
     [where w = b_fails_world and thumbnail_tasks = two_thumbnail_tasks
        and watermark_tasks = two_watermark_tasks and order = "[1, 0]" and futures = "[]"]
  note u = pool_counts_match_submitted_tasks
     [where w = b_fails_world and thumbnail_tasks = "[]"
        and watermark_tasks = "[]" and order = "[2, 0, 1]" and futures = three_futures]
  have l2: "length two_thumbnail_tasks = 2"
    by (simp add: two_thumbnail_tasks_def)
  have l3: "length three_futures = 3"
    by (simp add: three_futures_def)
  have n: "length (thumbnail_submit b_fails_world two_thumbnail_tasks) = length two_thumbnail_tasks"
    using t by blast
  have co: "completion_order (length (thumbnail_submit b_fails_world two_thumbnail_tasks)) [1, 0]"
    unfolding n l2 by (auto simp: completion_order_def)
  have q: "length (as_completed (thumbnail_submit b_fails_world two_thumbnail_tasks) [1, 0])
             = length two_thumbnail_tasks \<and>
           success_count (process_directory_pool
             (thumbnail_submit b_fails_world two_thumbnail_tasks) [1, 0]) +
           length (failed_files (process_directory_pool
             (thumbnail_submit b_fails_world two_thumbnail_tasks) [1, 0]))
             = length two_thumbnail_tasks"
    using t co by blast
  have co3: "completion_order (length three_futures) [2, 0, 1]"
    unfolding l3 by (auto simp: completion_order_def)
  have q3: "success_count (process_directory_pool three_futures [2, 0, 1]) +
      length (failed_files (process_directory_pool three_futures [2, 0, 1])) = length three_futures"
    using u co3 by blast
  show ?thesis
    using n co q co3 q3 unfolding l2 l3 by blast
qed

end
